theory Spec2Isabelle
  imports Main
begin

section \<open>NoteMind: chat sessions, chat messages, prompt context and audio-job polling\<close>

text \<open>
  A shallow embedding of the orchestration routines of \<^verbatim>\<open>src/pages/Index.tsx\<close> (chat
  sessions, chat messages, the context builder, the AI response orchestrator) and of
  the audio-job polling effect of the note editor.

  Conventions of the embedding.
  \<^item> React state is a record; a handler takes the state of the render it was created in
    and returns the state after all its setter calls. Where a handler calls another
    handler of the same render, or answers after the state has moved on, it reads the
    captured (closure) state and writes onto the current one, so it takes both.
  \<^item> A submission is modelled step by step, a step being the code between two awaits,
    so that the state at each await, and what another handler does to it meanwhile, can
    be told.
  \<^item> The arrays and objects given to \<open>buildRichContext\<close> live in a store, so that
    modifying them can be told from leaving them alone.
  \<^item> The paginated reads of sessions and messages are functions from the query the code
    builds to the \<open>{data, error}\<close> pair the client returns (\<open>Inl\<close> the error message,
    \<open>Inr\<close> the data). Every other remote call is given by its outcome, and the AI
    invocation by a function from the request.
  \<^item> A value that may be \<open>null\<close> or \<open>undefined\<close> is an \<open>option\<close>; JavaScript
    truthiness of a nullable string is \<open>truthy\<close>.
  \<^item> Clock readings (\<open>new Date().toISOString()\<close>) and fresh identifiers
    (\<open>crypto.randomUUID()\<close>) are parameters.
  \<^item> A string is the list of its code units; the literals of the program are ASCII.
  \<^item> Logging and toast notifications do not touch the state and are left out, except
    for the console line of \<open>buildRichContext\<close>, whose purity is a property of interest.
  \<^item> Names are the source's, except where they clash: \<open>_getAIResponse\<close> is
    \<open>getAIResponse\<close>, a field \<open>id\<close>, \<open>title\<close>, \<open>type\<close> or \<open>content\<close> carries the
    name of its record, and a parameter that shares its name with a field is shortened.
\<close>

subsection \<open>JavaScript values\<close>

type_synonym 'a response = "string + 'a"

definition truthy :: "string option \<Rightarrow> bool" where
  "truthy v = (case v of None \<Rightarrow> False | Some s \<Rightarrow> s \<noteq> [])"

text \<open>\<open>v || d\<close> on a nullable string.\<close>

definition or_else :: "string option \<Rightarrow> string \<Rightarrow> string" where
  "or_else v d = (case v of None \<Rightarrow> d | Some s \<Rightarrow> if s = [] then d else s)"

text \<open>\<open>v || undefined\<close> on a nullable string.\<close>

definition or_undefined :: "string option \<Rightarrow> string option" where
  "or_undefined v = (if truthy v then v else None)"

text \<open>\<open>xs || []\<close> and \<open>xs ?? []\<close> on a nullable array (every array is truthy).\<close>

definition or_empty :: "'a list option \<Rightarrow> 'a list" where
  "or_empty v = (case v of None \<Rightarrow> [] | Some xs \<Rightarrow> xs)"

subsection \<open>Data model\<close>

text \<open>The \<open>Message\<close> interface; the field \<open>id\<close> is \<open>message_id\<close> here.\<close>

record message =
  message_id :: string
  content :: string
  role :: string
  timestamp :: string
  isError :: "bool option"
  originalUserMessageContent :: "string option"
  imageUrl :: "string option"
  imageMimeType :: "string option"
  attachedDocumentIds :: "string list option"
  attachedNoteIds :: "string list option"

text \<open>
  Modelled from the spec: the generated declarations of the database rows
  (\<^verbatim>\<open>integrations/supabase/types\<close>) are not among the sources. The spec names the
  tables and their snake-case columns; the row records hold the columns the code reads.
  A row of \<open>chat_messages\<close>, as the client reads it (\<open>msg: any\<close>):
\<close>

record chat_message_row =
  row_id :: string
  row_content :: string
  row_role :: string
  row_timestamp :: "string option"
  row_is_error :: "bool option"
  row_attached_document_ids :: "string list option"
  row_attached_note_ids :: "string list option"
  row_image_url :: "string option"
  row_image_mime_type :: "string option"

text \<open>The \<open>ChatSession\<close> interface and a row of \<open>chat_sessions\<close>.\<close>

record chat_session =
  session_id :: string
  title :: string
  created_at :: string
  updated_at :: string
  last_message_at :: string
  document_ids :: "string list"

record chat_session_row =
  srow_id :: string
  srow_title :: string
  srow_created_at :: string
  srow_updated_at :: string
  srow_last_message_at :: string
  srow_document_ids :: "string list option"

text \<open>
  Modelled from the spec: the declarations of \<open>Document\<close> and \<open>Note\<close>
  (\<^verbatim>\<open>types/Document\<close>, \<^verbatim>\<open>types/Note\<close>) are not among the sources. The spec calls them
  externally-owned content entities referenced by id; the records hold the fields that
  \<open>buildRichContext\<close> and \<open>handleSubmit\<close> read.
\<close>

record document =
  doc_id :: string
  doc_title :: string
  file_name :: string
  doc_type :: string
  content_extracted :: "string option"
  processing_status :: "string option"
  file_url :: string

record app_note =
  note_id :: string
  note_title :: string
  category :: string
  note_content :: "string option"
  aiSummary :: "string option"
  tags :: "string list option"

subsection \<open>Queries\<close>

text \<open>
  \<open>from('chat_sessions').select('*').eq('user_id', u).order('last_message_at', desc).range(a, b)\<close>
\<close>

record sessions_query =
  sq_user_id :: string
  sq_from :: int
  sq_to :: int

text \<open>
  \<open>from('chat_messages').select('*').eq('session_id', s)[.lt('timestamp', t)].order('timestamp', desc).limit(n)\<close>
\<close>

record messages_query =
  mq_session_id :: string
  mq_before :: "string option"
  mq_limit :: nat

record remote =
  select_sessions :: "sessions_query \<Rightarrow> chat_session_row list response"
  select_messages :: "messages_query \<Rightarrow> chat_message_row list response"

subsection \<open>State of the Index page\<close>

definition CHAT_SESSIONS_PER_PAGE :: int where
  "CHAT_SESSIONS_PER_PAGE = 10"

definition CHAT_MESSAGES_PER_PAGE :: nat where
  "CHAT_MESSAGES_PER_PAGE = 20"

record index_state =
  user :: "string option"
  chatSessions :: "chat_session list"
  activeChatSessionId :: "string option"
  selectedDocumentIds :: "string list"
  chatMessages :: "message list"
  documents :: "document list"
  app_notes :: "app_note list"
  isAILoading :: bool
  isSubmittingUserMessage :: bool
  chatSessionsLoadedCount :: int
  hasMoreChatSessions :: bool
  hasMoreMessages :: bool

subsection \<open>Session store\<close>

definition formatSession :: "chat_session_row \<Rightarrow> chat_session" where
  "formatSession r =
     \<lparr>session_id = srow_id r, title = srow_title r, created_at = srow_created_at r,
      updated_at = srow_updated_at r, last_message_at = srow_last_message_at r,
      document_ids = or_empty (srow_document_ids r)\<rparr>"

definition sessionsQuery :: "string \<Rightarrow> int \<Rightarrow> sessions_query" where
  "sessionsQuery u n = \<lparr>sq_user_id = u, sq_from = 0, sq_to = n - 1\<rparr>"

text \<open>The number of rows a range asks for.\<close>

definition requestedSize :: "sessions_query \<Rightarrow> int" where
  "requestedSize q = sq_to q - sq_from q + 1"

text \<open>
  \<open>loadChatSessions\<close>: \<open>cl\<close> is the state captured by the callback (it reads \<open>user\<close>
  and \<open>chatSessionsLoadedCount\<close> from it), \<open>st\<close> the state its setters write to. A failed
  read is caught and changes nothing.
\<close>

definition loadChatSessionsFrom :: "index_state \<Rightarrow> remote \<Rightarrow> index_state \<Rightarrow> index_state" where
  "loadChatSessionsFrom cl env st =
     (case user cl of
        None \<Rightarrow> st
      | Some u \<Rightarrow>
          (case select_sessions env (sessionsQuery u (chatSessionsLoadedCount cl)) of
             Inl e \<Rightarrow> st
           | Inr data \<Rightarrow>
               st\<lparr>chatSessions := map formatSession data,
                  hasMoreChatSessions := (int (length data) = chatSessionsLoadedCount cl)\<rparr>))"

definition loadChatSessions :: "remote \<Rightarrow> index_state \<Rightarrow> index_state" where
  "loadChatSessions env st = loadChatSessionsFrom st env st"

definition handleLoadMoreChatSessions :: "index_state \<Rightarrow> index_state" where
  "handleLoadMoreChatSessions st =
     st\<lparr>chatSessionsLoadedCount := chatSessionsLoadedCount st + CHAT_SESSIONS_PER_PAGE\<rparr>"

subsection \<open>Message store\<close>

text \<open>The mapping of a row to a \<open>Message\<close>; \<open>now\<close> is the clock reading of the fallback.\<close>

definition formatMessage :: "string \<Rightarrow> chat_message_row \<Rightarrow> message" where
  "formatMessage now msg =
     \<lparr>message_id = row_id msg,
      content = row_content msg,
      role = row_role msg,
      timestamp = or_else (row_timestamp msg) now,
      isError = Some (case row_is_error msg of None \<Rightarrow> False | Some b \<Rightarrow> b),
      originalUserMessageContent = None,
      imageUrl = or_undefined (row_image_url msg),
      imageMimeType = or_undefined (row_image_mime_type msg),
      attachedDocumentIds = Some (or_empty (row_attached_document_ids msg)),
      attachedNoteIds = Some (or_empty (row_attached_note_ids msg))\<rparr>"

definition latestQuery :: "string \<Rightarrow> messages_query" where
  "latestQuery sessionId =
     \<lparr>mq_session_id = sessionId, mq_before = None, mq_limit = CHAT_MESSAGES_PER_PAGE\<rparr>"

definition olderQuery :: "string \<Rightarrow> string \<Rightarrow> messages_query" where
  "olderQuery sessionId oldest =
     \<lparr>mq_session_id = sessionId, mq_before = Some oldest, mq_limit = CHAT_MESSAGES_PER_PAGE\<rparr>"

definition loadSessionMessages :: "remote \<Rightarrow> string \<Rightarrow> string \<Rightarrow> index_state \<Rightarrow> index_state" where
  "loadSessionMessages env now sessionId st =
     (if user st = None then st
      else case select_messages env (latestQuery sessionId) of
             Inl e \<Rightarrow> st\<lparr>chatMessages := []\<rparr>
           | Inr data \<Rightarrow>
               st\<lparr>chatMessages := rev (map (formatMessage now) data),
                  hasMoreMessages := (length data = CHAT_MESSAGES_PER_PAGE)\<rparr>)"

text \<open>
  \<open>handleLoadOlderChatMessages\<close>: \<open>cl\<close> is the state captured by the callback. The
  guard, the session and the oldest timestamp \<open>chatMessages[0].timestamp\<close> are read from
  it when the call starts; when the answer arrives, the page is put in front of the
  buffer of the state \<open>st\<close> of that moment
  (\<open>setChatMessages(prevMessages => [...olderMessages, ...prevMessages])\<close>). Nothing in
  the routine keeps a second call from starting before the first has answered.
\<close>

definition handleLoadOlderChatMessagesFrom ::
  "index_state \<Rightarrow> remote \<Rightarrow> string \<Rightarrow> index_state \<Rightarrow> index_state" where
  "handleLoadOlderChatMessagesFrom cl env now st =
     (case activeChatSessionId cl of
        None \<Rightarrow> st
      | Some sessionId \<Rightarrow>
          if sessionId = [] \<or> user cl = None then st
          else (case chatMessages cl of
                  [] \<Rightarrow> st
                | m0 # _ \<Rightarrow>
                    (case select_messages env (olderQuery sessionId (timestamp m0)) of
                       Inl e \<Rightarrow> st
                     | Inr data \<Rightarrow>
                         st\<lparr>chatMessages := rev (map (formatMessage now) data) @ chatMessages st,
                            hasMoreMessages := (length data = CHAT_MESSAGES_PER_PAGE)\<rparr>)))"

text \<open>
  A call that starts in the render showing \<open>st\<close> and answers before anything else
  changes the state.
\<close>

definition handleLoadOlderChatMessages :: "remote \<Rightarrow> string \<Rightarrow> index_state \<Rightarrow> index_state" where
  "handleLoadOlderChatMessages env now st = handleLoadOlderChatMessagesFrom st env now st"

text \<open>
  One \<open>handleLoadOlderChatMessages\<close> call per clock reading of the list, in turn: each
  starts in the render that shows what the one before has left.
\<close>

fun loadOlderRepeatedly :: "remote \<Rightarrow> string list \<Rightarrow> index_state \<Rightarrow> index_state" where
  "loadOlderRepeatedly env [] st = st"
| "loadOlderRepeatedly env (now # nows) st =
     loadOlderRepeatedly env nows (handleLoadOlderChatMessages env now st)"

text \<open>
  What the message reads are given to satisfy: \<open>tbl\<close> is the \<open>chat_messages\<close> table and
  \<open>timeOf\<close> the point in time a timestamp text denotes (the order the database sorts
  by). Every successful read returns rows of the table, each once, each carrying a
  timestamp, newest first; a read with a \<open>lt('timestamp', t)\<close> filter returns only rows
  strictly older than \<open>t\<close>.
\<close>

definition stamped :: "chat_message_row \<Rightarrow> bool" where
  "stamped r = truthy (row_timestamp r)"

definition stamp :: "chat_message_row \<Rightarrow> string" where
  "stamp r = or_else (row_timestamp r) []"

definition pageOk :: "(string \<Rightarrow> int) \<Rightarrow> chat_message_row list \<Rightarrow> messages_query \<Rightarrow> chat_message_row list \<Rightarrow> bool" where
  "pageOk timeOf tbl q rows =
     (distinct rows \<and> set rows \<subseteq> set tbl \<and> list_all stamped rows \<and>
      sorted (rev (map (\<lambda>r. timeOf (stamp r)) rows)) \<and>
      (case mq_before q of
         None \<Rightarrow> True
       | Some t \<Rightarrow> list_all (\<lambda>r. timeOf (stamp r) < timeOf t) rows))"

definition readsOk :: "(string \<Rightarrow> int) \<Rightarrow> chat_message_row list \<Rightarrow> remote \<Rightarrow> bool" where
  "readsOk timeOf tbl env =
     (\<forall>q rows. select_messages env q = Inr rows \<longrightarrow> pageOk timeOf tbl q rows)"

text \<open>
  The invariant of the message buffer: chronological, no identifier twice, and every
  message the image of a timestamped row of the table.
\<close>

definition bufferOk :: "(string \<Rightarrow> int) \<Rightarrow> chat_message_row list \<Rightarrow> message list \<Rightarrow> bool" where
  "bufferOk timeOf tbl buf =
     (sorted (map (\<lambda>m. timeOf (timestamp m)) buf) \<and> distinct (map message_id buf) \<and>
      (\<forall>m\<in>set buf. \<exists>r\<in>set tbl. stamped r \<and> row_id r = message_id m \<and> stamp r = timestamp m))"

subsection \<open>Deleting a session\<close>

text \<open>
  \<open>sessions.sort((a, b) => new Date(b.last_message_at).getTime() - new Date(a.last_message_at).getTime())\<close>:
  a stable sort, most recent first; \<open>getTime\<close> is the parse of a date text.
\<close>

definition mostRecentFirst :: "(string \<Rightarrow> int) \<Rightarrow> chat_session list \<Rightarrow> chat_session list" where
  "mostRecentFirst getTime ss = sort_key (\<lambda>s. - getTime (last_message_at s)) ss"

text \<open>
  \<open>deleteChatSession\<close>; \<open>deleteError\<close> is the \<open>error\<close> of the remote delete. The list
  reload runs the captured \<open>loadChatSessions\<close>, and the tests on \<open>activeChatSessionId\<close>
  and \<open>chatSessions\<close> read the captured state.
\<close>

definition deleteChatSession :: "remote \<Rightarrow> (string \<Rightarrow> int) \<Rightarrow> string option \<Rightarrow> string \<Rightarrow> index_state \<Rightarrow> index_state" where
  "deleteChatSession env getTime deleteError sessionId st =
     (if user st = None then st
      else case deleteError of
             Some e \<Rightarrow> st
           | None \<Rightarrow>
               (let st1 = loadChatSessionsFrom st env
                            (st\<lparr>chatSessionsLoadedCount := CHAT_SESSIONS_PER_PAGE\<rparr>)
                in if activeChatSessionId st = Some sessionId then
                     (if length (chatSessions st) > 1 then
                        (case mostRecentFirst getTime
                                (filter (\<lambda>s. session_id s \<noteq> sessionId) (chatSessions st)) of
                           mostRecent # _ \<Rightarrow>
                             st1\<lparr>activeChatSessionId := Some (session_id mostRecent)\<rparr>
                         | [] \<Rightarrow>
                             st1\<lparr>activeChatSessionId := None, chatMessages := [],
                                 hasMoreMessages := False\<rparr>)
                      else st1\<lparr>activeChatSessionId := None, chatMessages := [],
                               hasMoreMessages := False\<rparr>)
                   else st1))"

subsection \<open>Example data\<close>

text \<open>
  A reading of timestamp texts of one fixed format (year to second, in digits): the
  number the digits spell.
\<close>

definition digitsValue :: "string \<Rightarrow> int" where
  "digitsValue s =
     foldl (\<lambda>n c. if 48 \<le> (of_char c :: nat) \<and> (of_char c :: nat) \<le> 57
                   then 10 * n + int (of_char c) - 48 else n) 0 s"

definition exampleRow :: "string \<Rightarrow> string \<Rightarrow> chat_message_row" where
  "exampleRow i t =
     \<lparr>row_id = i, row_content = ''hello'', row_role = ''user'', row_timestamp = Some t,
      row_is_error = None, row_attached_document_ids = None, row_attached_note_ids = None,
      row_image_url = None, row_image_mime_type = None\<rparr>"

definition exampleSessionRow :: "string \<Rightarrow> chat_session_row" where
  "exampleSessionRow i =
     \<lparr>srow_id = i, srow_title = ''New Chat'', srow_created_at = ''2024-01-01'',
      srow_updated_at = ''2024-01-01'', srow_last_message_at = ''2024-01-01'',
      srow_document_ids = None\<rparr>"

definition exampleMessage :: "string \<Rightarrow> string \<Rightarrow> string \<Rightarrow> message" where
  "exampleMessage i r c =
     \<lparr>message_id = i, content = c, role = r, timestamp = ''2024-01-01T10:00:00Z'',
      isError = Some False, originalUserMessageContent = None, imageUrl = None,
      imageMimeType = None, attachedDocumentIds = Some [], attachedNoteIds = Some []\<rparr>"

text \<open>The state of a signed-in user right after mounting (the \<open>useState\<close> initial values).\<close>

definition initialState :: index_state where
  "initialState =
     \<lparr>user = Some ''u1'', chatSessions = [], activeChatSessionId = None,
      selectedDocumentIds = [], chatMessages = [], documents = [], app_notes = [],
      isAILoading = False, isSubmittingUserMessage = False,
      chatSessionsLoadedCount = CHAT_SESSIONS_PER_PAGE, hasMoreChatSessions = True,
      hasMoreMessages = True\<rparr>"

text \<open>A remote whose session read returns ten rows and whose message read fails.\<close>

definition tenSessions :: remote where
  "tenSessions =
     \<lparr>select_sessions = (\<lambda>q. Inr (replicate 10 (exampleSessionRow ''s1''))),
      select_messages = (\<lambda>q. Inl ''network error'')\<rparr>"

text \<open>
  A remote over a table of three messages: the first page holds the two newest, the page
  before the older of them holds the third, and there is nothing before that.
\<close>

definition threeMessages :: "chat_message_row list" where
  "threeMessages = [exampleRow ''m1'' ''2024-01-01T10:00:01Z'', exampleRow ''m2'' ''2024-01-01T10:00:02Z'', exampleRow ''m3'' ''2024-01-01T10:00:03Z'']"

definition pagedRemote :: remote where
  "pagedRemote =
     \<lparr>select_sessions = (\<lambda>q. Inr []),
      select_messages = (\<lambda>q.
         if mq_before q = None then Inr [exampleRow ''m3'' ''2024-01-01T10:00:03Z'', exampleRow ''m2'' ''2024-01-01T10:00:02Z'']
         else if mq_before q = Some ''2024-01-01T10:00:02Z'' then Inr [exampleRow ''m1'' ''2024-01-01T10:00:01Z'']
         else Inr [])\<rparr>"

subsection \<open>Context builder\<close>

text \<open>\<open>s.length > n ? s.substring(0, n) + '...' : s\<close>\<close>

definition truncateTo :: "nat \<Rightarrow> string \<Rightarrow> string" where
  "truncateTo n s = (if length s > n then take n s @ ''...'' else s)"

text \<open>\<open>xs.join(sep)\<close>\<close>

fun joinWith :: "string \<Rightarrow> string list \<Rightarrow> string" where
  "joinWith sep [] = []"
| "joinWith sep [x] = x"
| "joinWith sep (x # y # ys) = x @ sep @ joinWith sep (y # ys)"

text \<open>The title, file and type lines of a document.\<close>

definition documentHeader :: "document \<Rightarrow> string" where
  "documentHeader doc =
     ''Title: '' @ doc_title doc @ ''\<newline>'' @
     ''File: '' @ file_name doc @ ''\<newline>'' @
     (if doc_type doc = ''image'' then ''Type: Image\<newline>''
      else if doc_type doc = ''text'' then ''Type: Text Document\<newline>''
      else [])"

text \<open>The value of the local \<open>content\<close> for extracted text \<open>c\<close>.\<close>

definition documentContent :: "string \<Rightarrow> string" where
  "documentContent c = truncateTo 2000 c"

text \<open>The content line of a document without extracted text.\<close>

definition documentNoContent :: "document \<Rightarrow> string" where
  "documentNoContent doc =
     (if doc_type doc = ''image'' \<and> processing_status doc \<noteq> Some ''completed'' then
        ''Content: Image processing '' @ or_else (processing_status doc) ''pending'' @
        ''. No extracted text yet.\<newline>''
      else if doc_type doc = ''image'' \<and> processing_status doc = Some ''completed''
              \<and> \<not> truthy (content_extracted doc) then
        ''Content: Image analysis completed, but no text or detailed description was extracted.\<newline>''
      else ''Content: No content extracted or available.\<newline>'')"

definition contentLabel :: "document \<Rightarrow> string" where
  "contentLabel doc =
     (if doc_type doc = ''image'' then ''Content (Image Description): '' else ''Content: '')"

definition documentContentLine :: "document \<Rightarrow> string" where
  "documentContentLine doc =
     (case content_extracted doc of
        None \<Rightarrow> documentNoContent doc
      | Some c \<Rightarrow>
          if c = [] then documentNoContent doc
          else contentLabel doc @ documentContent c @ ''\<newline>'')"

text \<open>What one iteration of \<open>selectedDocs.forEach\<close> appends to \<open>context\<close>.\<close>

definition documentEntry :: "document \<Rightarrow> string" where
  "documentEntry doc = documentHeader doc @ documentContentLine doc @ ''\<newline>''"

definition noteHeader :: "app_note \<Rightarrow> string" where
  "noteHeader n =
     ''Title: '' @ note_title n @ ''\<newline>'' @ ''Category: '' @ category n @ ''\<newline>''"

definition noteContent :: "string \<Rightarrow> string" where
  "noteContent c = truncateTo 1500 c"

definition noteContentLine :: "app_note \<Rightarrow> string" where
  "noteContentLine n =
     (case note_content n of
        None \<Rightarrow> []
      | Some c \<Rightarrow> if c = [] then [] else ''Content: '' @ noteContent c @ ''\<newline>'')"

definition noteTrailer :: "app_note \<Rightarrow> string" where
  "noteTrailer n =
     (if truthy (aiSummary n) then ''AI Summary: '' @ or_else (aiSummary n) [] @ ''\<newline>'' else []) @
     (if length (or_empty (tags n)) > 0
      then ''Tags: '' @ joinWith '', '' (or_empty (tags n)) @ ''\<newline>'' else [])"

text \<open>What one iteration of \<open>selectedNotes.forEach\<close> appends to \<open>context\<close>.\<close>

definition noteEntry :: "app_note \<Rightarrow> string" where
  "noteEntry n = noteHeader n @ noteContentLine n @ noteTrailer n @ ''\<newline>''"

definition selectedDocs :: "string list option \<Rightarrow> document list option \<Rightarrow> document list" where
  "selectedDocs documentIdsToInclude allDocuments =
     filter (\<lambda>doc. doc_id doc \<in> set (or_empty documentIdsToInclude)) (or_empty allDocuments)"

definition selectedNotes :: "string list option \<Rightarrow> app_note list option \<Rightarrow> app_note list" where
  "selectedNotes noteIdsToInclude allNotes =
     filter (\<lambda>n. note_id n \<in> set (or_empty noteIdsToInclude)) (or_empty allNotes)"

definition buildRichContext ::
  "string list option \<Rightarrow> string list option \<Rightarrow> document list option \<Rightarrow> app_note list option \<Rightarrow> string" where
  "buildRichContext documentIdsToInclude noteIdsToInclude allDocuments allNotes =
     (let context0 = [];
          context1 =
            (if length (selectedDocs documentIdsToInclude allDocuments) > 0
             then foldl (\<lambda>context doc. context @ documentEntry doc)
                    (context0 @ ''DOCUMENTS:\<newline>'')
                    (selectedDocs documentIdsToInclude allDocuments)
             else context0);
          context2 =
            (if length (selectedNotes noteIdsToInclude allNotes) > 0
             then foldl (\<lambda>context n. context @ noteEntry n)
                    (context1 @ ''NOTES:\<newline>'')
                    (selectedNotes noteIdsToInclude allNotes)
             else context1)
      in context2)"

definition exampleDocument :: "string \<Rightarrow> string \<Rightarrow> document" where
  "exampleDocument i c =
     \<lparr>doc_id = i, doc_title = ''Slides'', file_name = ''slides.pdf'', doc_type = ''text'',
      content_extracted = Some c, processing_status = Some ''completed'',
      file_url = ''https://example.org/slides.pdf''\<rparr>"

definition exampleNote :: "string \<Rightarrow> string \<Rightarrow> app_note" where
  "exampleNote i c =
     \<lparr>note_id = i, note_title = ''Week 1'', category = ''general'', note_content = Some c,
      aiSummary = Some ''short'', tags = Some [''a'', ''b'']\<rparr>"

subsection \<open>The context builder on a store\<close>

text \<open>
  The arrays and objects that \<open>buildRichContext\<close> is given are shared with the page
  state and can be modified in place. The store holds them: a reference is the index of
  a cell, and a newly created array or object is put in a new cell at the end. The
  \<open>tags\<close> array of a note is part of the cell of the note.
\<close>

type_synonym ref = nat

datatype cell =
  StringArray "string list"
| ObjectArray "ref list"
| DocumentObject document
| NoteObject app_note

text \<open>
  The cells, the page state, which the callback (created with an empty dependency list)
  neither reads nor sets, and the console.
\<close>

record store =
  cells :: "cell list"
  pageState :: index_state
  console :: "string list"

definition cellAt :: "store \<Rightarrow> ref \<Rightarrow> cell option" where
  "cellAt st r = (if r < length (cells st) then Some (cells st ! r) else None)"

definition allocate :: "cell \<Rightarrow> store \<Rightarrow> ref \<times> store" where
  "allocate c st = (length (cells st), st\<lparr>cells := cells st @ [c]\<rparr>)"

text \<open>
  Reading \<open>xs ?? []\<close> for a nullable reference to an array of strings, and to an array
  of objects. A reference that is given and holds no array of that kind is no state of
  the program: the read has no value then.
\<close>

definition stringsAt :: "store \<Rightarrow> ref option \<Rightarrow> string list option" where
  "stringsAt st v =
     (case v of
        None \<Rightarrow> Some []
      | Some r \<Rightarrow> (case cellAt st r of Some (StringArray xs) \<Rightarrow> Some xs | _ \<Rightarrow> None))"

definition refsAt :: "store \<Rightarrow> ref option \<Rightarrow> ref list option" where
  "refsAt st v =
     (case v of
        None \<Rightarrow> Some []
      | Some r \<Rightarrow> (case cellAt st r of Some (ObjectArray rs) \<Rightarrow> Some rs | _ \<Rightarrow> None))"

definition documentAt :: "store \<Rightarrow> ref \<Rightarrow> document option" where
  "documentAt st r = (case cellAt st r of Some (DocumentObject doc) \<Rightarrow> Some doc | _ \<Rightarrow> None)"

definition noteAt :: "store \<Rightarrow> ref \<Rightarrow> app_note option" where
  "noteAt st r = (case cellAt st r of Some (NoteObject n) \<Rightarrow> Some n | _ \<Rightarrow> None)"

text \<open>The documents and the notes that an array refers to, in its order.\<close>

definition documentsAt :: "store \<Rightarrow> ref option \<Rightarrow> document list option" where
  "documentsAt st v = Option.bind (refsAt st v) (\<lambda>refs. those (map (documentAt st) refs))"

definition notesAt :: "store \<Rightarrow> ref option \<Rightarrow> app_note list option" where
  "notesAt st v = Option.bind (refsAt st v) (\<lambda>refs. those (map (noteAt st) refs))"

text \<open>
  \<open>(allDocuments ?? []).filter(doc => (documentIdsToInclude ?? []).includes(doc.id))\<close>:
  \<open>filter\<close> creates a new array, which holds the references that pass the test, and
  returns its reference.
\<close>

definition filterDocuments :: "ref option \<Rightarrow> ref option \<Rightarrow> store \<Rightarrow> (ref \<times> store) option" where
  "filterDocuments allDocuments documentIdsToInclude st =
     Option.bind (refsAt st allDocuments) (\<lambda>refs.
     Option.bind (those (map (documentAt st) refs)) (\<lambda>docs.
     Option.bind (stringsAt st documentIdsToInclude) (\<lambda>ids.
     Some (allocate
             (ObjectArray (map fst (filter (\<lambda>(r, doc). doc_id doc \<in> set ids) (zip refs docs))))
             st))))"

definition filterNotes :: "ref option \<Rightarrow> ref option \<Rightarrow> store \<Rightarrow> (ref \<times> store) option" where
  "filterNotes allNotes noteIdsToInclude st =
     Option.bind (refsAt st allNotes) (\<lambda>refs.
     Option.bind (those (map (noteAt st) refs)) (\<lambda>nts.
     Option.bind (stringsAt st noteIdsToInclude) (\<lambda>ids.
     Some (allocate
             (ObjectArray (map fst (filter (\<lambda>(r, n). note_id n \<in> set ids) (zip refs nts))))
             st))))"

text \<open>
  The two \<open>forEach\<close> loops on the objects of \<open>selectedDocs\<close> and \<open>selectedNotes\<close>: they
  read the objects and append to the local string \<open>context\<close>.
\<close>

definition contextOf :: "document list \<Rightarrow> app_note list \<Rightarrow> string" where
  "contextOf docs nts =
     (let context0 = [];
          context1 =
            (if length docs > 0
             then foldl (\<lambda>context doc. context @ documentEntry doc)
                    (context0 @ ''DOCUMENTS:\<newline>'') docs
             else context0);
          context2 =
            (if length nts > 0
             then foldl (\<lambda>context n. context @ noteEntry n) (context1 @ ''NOTES:\<newline>'') nts
             else context1)
      in context2)"

text \<open>
  \<open>buildRichContext\<close> on the store, given the references of its four arguments (\<open>None\<close>
  for \<open>null\<close> or \<open>undefined\<close>): the two filters, the two loops, the console line, and the
  string returned.
\<close>

definition buildRichContextIn ::
  "ref option \<Rightarrow> ref option \<Rightarrow> ref option \<Rightarrow> ref option \<Rightarrow> store \<Rightarrow> (string \<times> store) option" where
  "buildRichContextIn documentIdsToInclude noteIdsToInclude allDocuments allNotes st =
     Option.bind (filterDocuments allDocuments documentIdsToInclude st) (\<lambda>(selectedDocsRef, st1).
     Option.bind (filterNotes allNotes noteIdsToInclude st1) (\<lambda>(selectedNotesRef, st2).
     Option.bind (documentsAt st2 (Some selectedDocsRef)) (\<lambda>docs.
     Option.bind (notesAt st2 (Some selectedNotesRef)) (\<lambda>nts.
     (let context = contextOf docs nts
      in Some (context, st2\<lparr>console := console st2 @ [''Generated Context: '' @ context]\<rparr>))))))"

text \<open>
  Two stores that hold the same documents, notes and identifier lists at different
  places.
\<close>

definition exampleStore :: store where
  "exampleStore =
     \<lparr>cells = [StringArray [''d2''], StringArray [''n1''],
               DocumentObject (exampleDocument ''d1'' ''One''),
               DocumentObject (exampleDocument ''d2'' ''Two''),
               ObjectArray [2, 3],
               NoteObject (exampleNote ''n1'' ''Three''),
               ObjectArray [5]],
      pageState = initialState, console = []\<rparr>"

definition otherStore :: store where
  "otherStore =
     \<lparr>cells = [NoteObject (exampleNote ''n1'' ''Three''),
               DocumentObject (exampleDocument ''d2'' ''Two''),
               DocumentObject (exampleDocument ''d1'' ''One''),
               ObjectArray [0],
               ObjectArray [2, 1],
               StringArray [''n1''], StringArray [''d2'']],
      pageState = initialState\<lparr>activeChatSessionId := Some ''s1''\<rparr>, console = [''ready'']\<rparr>"

subsection \<open>AI response orchestrator\<close>

text \<open>A part of a chat turn: text, or inline data with its MIME type.\<close>

datatype part = Text string | InlineData string "string option"

type_synonym chat_turn = "string \<times> part list"

text \<open>
  The body of the \<open>gemini-chat\<close> invocation, as far as it depends on the conversation.
  The learning settings it also carries come from the user profile, which no routine
  here changes; the invocation of \<open>ai_env\<close> is a function of the rest.
\<close>

record ai_request =
  rq_userId :: string
  rq_sessionId :: string
  rq_chatHistory :: "chat_turn list"

text \<open>
  What awaiting the invocation gives: an exception with its \<open>message\<close>, an \<open>error\<close>
  object with its \<open>message\<close>, or data with its \<open>response\<close> field.
\<close>

datatype invoke_result =
  InvokeThrew "string option"
| InvokeError string
| InvokeData "string option"

text \<open>
  The surroundings of one \<open>_getAIResponse\<close> call: the invocation, the \<open>error\<close> of the
  message update, the \<open>{data, error}\<close> of the message insert, the clock readings that
  reach the state, a fresh identifier and the parse of a date text. (The \<open>error\<close> of
  the session update is only logged.)
\<close>

record ai_env =
  ai_invoke :: "ai_request \<Rightarrow> invoke_result"
  ai_updateDbError :: "string option"
  ai_insertedAiMessage :: "chat_message_row option response"
  ai_messageNow :: string
  ai_sessionNow :: string
  ai_randomUUID :: string
  ai_getTime :: "string \<Rightarrow> int"

text \<open>\<open>s.split(c)\<close>\<close>

fun splitOn :: "char \<Rightarrow> string \<Rightarrow> string list" where
  "splitOn c [] = [[]]"
| "splitOn c (x # xs) =
     (if x = c then [] # splitOn c xs
      else (case splitOn c xs of
              [] \<Rightarrow> [[x]]
            | y # ys \<Rightarrow> (x # y) # ys))"

text \<open>\<open>imageDataBase64.split(',')[1]\<close>\<close>

definition base64Data :: "string \<Rightarrow> string option" where
  "base64Data imageDataBase64 =
     (case splitOn CHR '','' imageDataBase64 of
        _ # b # _ \<Rightarrow> Some b
      | _ \<Rightarrow> None)"

definition hasAttachments :: "message \<Rightarrow> bool" where
  "hasAttachments msg =
     ((case attachedDocumentIds msg of None \<Rightarrow> False | Some ids \<Rightarrow> length ids > 0) \<or>
      (case attachedNoteIds msg of None \<Rightarrow> False | Some ids \<Rightarrow> length ids > 0))"

text \<open>What one iteration of \<open>historicalMessages.forEach\<close> pushes onto \<open>chatHistory\<close>.\<close>

definition historyTurn :: "index_state \<Rightarrow> message \<Rightarrow> chat_turn list" where
  "historyTurn cl msg =
     (if role msg = ''user'' then
        [(''user'',
          Text (content msg) #
          (if hasAttachments msg then
             (let historicalContext =
                    buildRichContext (Some (or_empty (attachedDocumentIds msg)))
                      (Some (or_empty (attachedNoteIds msg)))
                      (Some (documents cl)) (Some (app_notes cl))
              in if historicalContext \<noteq> [] then
                   [Text (''\<newline>\<newline>Context from previous attachments:\<newline>'' @ historicalContext)]
                 else [])
           else []))]
      else if role msg = ''assistant'' then [(''model'', [Text (content msg)])]
      else [])"

definition currentUserParts :: "string \<Rightarrow> string option \<Rightarrow> string option \<Rightarrow> part list" where
  "currentUserParts userMessageContent imageDataBase64 imageMime =
     (if userMessageContent \<noteq> [] then [Text userMessageContent] else []) @
     (case (imageDataBase64, imageMime) of
        (Some d, Some t) \<Rightarrow> if d \<noteq> [] \<and> t \<noteq> [] then [InlineData t (base64Data d)] else []
      | _ \<Rightarrow> [])"

definition chatHistory ::
  "index_state \<Rightarrow> string \<Rightarrow> string option \<Rightarrow> string option \<Rightarrow> string option \<Rightarrow> chat_turn list" where
  "chatHistory cl userMessageContent aiMessageIdToUpdate imageDataBase64 imageMime =
     concat (map (historyTurn cl)
       (filter (\<lambda>msg. \<not> (truthy aiMessageIdToUpdate \<and> Some (message_id msg) = aiMessageIdToUpdate))
          (chatMessages cl))) @
     [(''user'', currentUserParts userMessageContent imageDataBase64 imageMime)]"

text \<open>
  The invocation and the checks on its result: \<open>Inl\<close> the \<open>message\<close> of the error
  thrown, \<open>Inr\<close> the response text.
\<close>

definition aiResponseContent :: "invoke_result \<Rightarrow> string option + string" where
  "aiResponseContent r =
     (case r of
        InvokeThrew m \<Rightarrow> Inl m
      | InvokeError m \<Rightarrow> Inl (Some (''AI service error: '' @ m))
      | InvokeData d \<Rightarrow>
          (case d of
             None \<Rightarrow> Inl (Some ''Empty response from AI service'')
           | Some c \<Rightarrow> if c = [] then Inl (Some ''Empty response from AI service'') else Inr c))"

text \<open>The session list after a successful turn: the session touched, most recent first.\<close>

definition touchSession :: "ai_env \<Rightarrow> string \<Rightarrow> string list \<Rightarrow> chat_session list \<Rightarrow> chat_session list" where
  "touchSession env sessionId attachedDocs prev =
     mostRecentFirst (ai_getTime env)
       (map (\<lambda>session. if session_id session = sessionId
                       then session\<lparr>last_message_at := ai_sessionNow env,
                              document_ids := attachedDocs\<rparr>
                       else session) prev)"

text \<open>
  The \<open>try\<close> block after the response has arrived: \<open>Inl\<close> the \<open>message\<close> of the error
  thrown (no setter has run by then), \<open>Inr\<close> the state after its setters.
\<close>

definition saveAiResponse ::
  "ai_env \<Rightarrow> string \<Rightarrow> string list \<Rightarrow> string option \<Rightarrow> string \<Rightarrow> index_state \<Rightarrow> string option + index_state" where
  "saveAiResponse env sessionId attachedDocs aiMessageIdToUpdate aiResponse st =
     (if truthy aiMessageIdToUpdate then
        (case ai_updateDbError env of
           Some e \<Rightarrow> Inl (Some ''Failed to save AI response'')
         | None \<Rightarrow>
             Inr (st\<lparr>chatMessages :=
                        map (\<lambda>msg. if Some (message_id msg) = aiMessageIdToUpdate
                                   then msg\<lparr>content := aiResponse, timestamp := ai_messageNow env,
                                          isError := Some False\<rparr>
                                   else msg) (chatMessages st),
                     chatSessions := touchSession env sessionId attachedDocs (chatSessions st)\<rparr>))
      else
        (case ai_insertedAiMessage env of
           Inl e \<Rightarrow> Inl (Some ''Failed to save AI response'')
         | Inr newAiMessageData \<Rightarrow>
             Inr (st\<lparr>chatMessages := chatMessages st @
                        [\<lparr>message_id =
                            or_else (map_option row_id newAiMessageData) (ai_randomUUID env),
                          content = aiResponse,
                          role = ''assistant'',
                          timestamp =
                            or_else (Option.bind newAiMessageData row_timestamp) (ai_messageNow env),
                          isError = Some False,
                          originalUserMessageContent = None,
                          imageUrl = None, imageMimeType = None,
                          attachedDocumentIds = None, attachedNoteIds = None\<rparr>],
                     chatSessions := touchSession env sessionId attachedDocs (chatSessions st)\<rparr>)))"

text \<open>The \<open>catch\<close> block; \<open>errorMessage\<close> is \<open>error.message\<close>.\<close>

definition aiCatch ::
  "ai_env \<Rightarrow> string option \<Rightarrow> string \<Rightarrow> string option \<Rightarrow> index_state \<Rightarrow> index_state" where
  "aiCatch env errorMessage userMessageContent aiMessageIdToUpdate st =
     (if truthy aiMessageIdToUpdate then
        st\<lparr>chatMessages :=
             map (\<lambda>msg. if Some (message_id msg) = aiMessageIdToUpdate
                        then msg\<lparr>content := ''Failed to regenerate response: '' @
                                            or_else errorMessage ''Unknown error'' @
                                            ''. Please try again.'',
                               isError := Some True,
                               timestamp := ai_messageNow env\<rparr>
                        else msg) (chatMessages st)\<rparr>
      else
        st\<lparr>chatMessages := chatMessages st @
             [\<lparr>message_id = ai_randomUUID env,
               content = ''I'm sorry, I couldn't generate a response: '' @
                         or_else errorMessage ''Unknown error'' @ ''. Please try again.'',
               role = ''assistant'',
               timestamp = ai_messageNow env,
               isError = Some True,
               originalUserMessageContent = Some userMessageContent,
               imageUrl = None, imageMimeType = None,
               attachedDocumentIds = None, attachedNoteIds = None\<rparr>]\<rparr>)"

text \<open>
  The \<open>try\<close> and \<open>catch\<close> blocks of \<open>_getAIResponse\<close>. \<open>cl\<close> is the state captured
  by the callback, from which the chat history is built; \<open>st1\<close> is the state the setters
  write to.
\<close>

definition aiTryCatch ::
  "index_state \<Rightarrow> ai_env \<Rightarrow> string \<Rightarrow> string \<Rightarrow> string \<Rightarrow> string list \<Rightarrow> string list \<Rightarrow>
   string option \<Rightarrow> string option \<Rightarrow> string option \<Rightarrow> index_state \<Rightarrow> index_state" where
  "aiTryCatch cl env userMessageContent userId sessionId attachedDocs attachedNotes
     aiMessageIdToUpdate imageDataBase64 imageMime st1 =
     (let request = \<lparr>rq_userId = userId, rq_sessionId = sessionId,
                     rq_chatHistory = chatHistory cl userMessageContent aiMessageIdToUpdate
                                        imageDataBase64 imageMime\<rparr>;
          attempt =
            (case aiResponseContent (ai_invoke env request) of
               Inl errorMessage \<Rightarrow> Inl errorMessage
             | Inr aiResponse \<Rightarrow>
                 saveAiResponse env sessionId attachedDocs aiMessageIdToUpdate aiResponse st1)
      in case attempt of
           Inr s \<Rightarrow> s
         | Inl errorMessage \<Rightarrow>
             aiCatch env errorMessage userMessageContent aiMessageIdToUpdate st1)"

text \<open>
  \<open>_getAIResponse\<close>: the guard, \<open>setIsAILoading(true)\<close>, the \<open>try\<close> and \<open>catch\<close>
  blocks, and \<open>setIsAILoading(false)\<close> in the \<open>finally\<close> block.
\<close>

definition getAIResponse ::
  "index_state \<Rightarrow> ai_env \<Rightarrow> string \<Rightarrow> string option \<Rightarrow> string \<Rightarrow> string list \<Rightarrow> string list \<Rightarrow>
   string option \<Rightarrow> string option \<Rightarrow> string option \<Rightarrow> index_state \<Rightarrow> index_state" where
  "getAIResponse cl env userMessageContent currentUser sessionId attachedDocs
     attachedNotes aiMessageIdToUpdate imageDataBase64 imageMime st =
     (case currentUser of
        None \<Rightarrow> st
      | Some userId \<Rightarrow>
          if sessionId = [] then st
          else (aiTryCatch cl env userMessageContent userId sessionId attachedDocs attachedNotes
                  aiMessageIdToUpdate imageDataBase64 imageMime
                  (st\<lparr>isAILoading := True\<rparr>))\<lparr>isAILoading := False\<rparr>)"

text \<open>The assistant message shown while a response is regenerated.\<close>

definition thinking :: "string \<Rightarrow> string \<Rightarrow> message list \<Rightarrow> message list" where
  "thinking now target prev =
     map (\<lambda>msg. if message_id msg = target
                then msg\<lparr>content := ''AI is thinking...'', timestamp := now, isError := Some False\<rparr>
                else msg) prev"

definition handleRegenerateResponse ::
  "ai_env \<Rightarrow> string \<Rightarrow> string \<Rightarrow> index_state \<Rightarrow> index_state" where
  "handleRegenerateResponse env now lastUserMessageContent st =
     (if user st = None \<or> \<not> truthy (activeChatSessionId st) then st
      else
        (case find (\<lambda>msg. role msg = ''user'') (rev (chatMessages st)) of
           None \<Rightarrow> st
         | Some lastUserMessage \<Rightarrow>
             (case find (\<lambda>msg. role msg = ''assistant'') (rev (chatMessages st)) of
                None \<Rightarrow> st
              | Some lastAssistantMessage \<Rightarrow>
                  getAIResponse st env lastUserMessageContent (user st)
                    (or_else (activeChatSessionId st) [])
                    (or_empty (attachedDocumentIds lastUserMessage))
                    (or_empty (attachedNoteIds lastUserMessage))
                    (Some (message_id lastAssistantMessage)) None None
                    (st\<lparr>chatMessages :=
                          thinking now (message_id lastAssistantMessage) (chatMessages st)\<rparr>))))"

definition handleRetryFailedMessage ::
  "ai_env \<Rightarrow> string \<Rightarrow> string \<Rightarrow> string \<Rightarrow> index_state \<Rightarrow> index_state" where
  "handleRetryFailedMessage env now originalContent failedAiMessageId st =
     (if user st = None \<or> \<not> truthy (activeChatSessionId st) then st
      else
        (case find (\<lambda>msg. role msg = ''user'' \<and> content msg = originalContent)
                (rev (chatMessages st)) of
           None \<Rightarrow> st
         | Some lastUserMessage \<Rightarrow>
             getAIResponse st env originalContent (user st)
               (or_else (activeChatSessionId st) [])
               (or_empty (attachedDocumentIds lastUserMessage))
               (or_empty (attachedNoteIds lastUserMessage))
               (Some failedAiMessageId) None None
               (st\<lparr>chatMessages := thinking now failedAiMessageId (chatMessages st)\<rparr>)))"

text \<open>\<open>m'\<close> is \<open>m\<close> except possibly for its content, timestamp and error flag.\<close>

definition sameExceptResponse :: "message \<Rightarrow> message \<Rightarrow> bool" where
  "sameExceptResponse m m' =
     (m' = m\<lparr>content := content m', timestamp := timestamp m', isError := isError m'\<rparr>)"

text \<open>
  Position by position, the messages whose identifier is not \<open>target\<close> are unchanged,
  and those whose identifier is \<open>target\<close> differ at most in content, timestamp and
  error flag.
\<close>

definition onlyTargetChanged :: "string \<Rightarrow> message list \<Rightarrow> message list \<Rightarrow> bool" where
  "onlyTargetChanged target before after =
     list_all2 (\<lambda>m m'. if message_id m = target then sameExceptResponse m m' else m' = m)
       before after"

text \<open>The AI call fails: a thrown error, a remote error, or an empty response.\<close>

definition aiCallFailed :: "invoke_result \<Rightarrow> bool" where
  "aiCallFailed r =
     (case r of InvokeThrew m \<Rightarrow> True | InvokeError m \<Rightarrow> True | InvokeData d \<Rightarrow> \<not> truthy d)"

subsection \<open>Submitting a message\<close>

text \<open>
  The surroundings of one \<open>handleSubmit\<close> call: the user \<open>auth.getUser()\<close> returns,
  the \<open>{data, error}\<close> of the session insert, of the document read and of the user
  message insert, and the clock reading of the timestamp fallback.
\<close>

record submit_env =
  sub_authUser :: "string option"
  sub_createdSession :: "chat_session_row option response"
  sub_refreshedDocument :: "document response"
  sub_insertedUserMessage :: "chat_message_row option response"
  sub_now :: string

text \<open>\<open>s.trim()\<close>: the white space and line terminators among the code units below 256.\<close>

definition isSpace :: "char \<Rightarrow> bool" where
  "isSpace c = (c \<in> set [CHR '' '', CHR 0x09, CHR 0x0A, CHR 0x0B, CHR 0x0C, CHR 0x0D, CHR 0xA0])"

definition trim :: "string \<Rightarrow> string" where
  "trim s = rev (dropWhile isSpace (rev (dropWhile isSpace s)))"

text \<open>The entry guard of \<open>handleSubmit\<close>.\<close>

definition submitRejected ::
  "index_state \<Rightarrow> string \<Rightarrow> string list option \<Rightarrow> string list option \<Rightarrow> string option \<Rightarrow> bool" where
  "submitRejected st messageContent attachedDocs attachedNotes imageUrlArg =
     ((trim messageContent = [] \<and> or_empty attachedDocs = [] \<and> or_empty attachedNotes = [] \<and>
       \<not> truthy imageUrlArg) \<or>
      isAILoading st \<or> isSubmittingUserMessage st)"

definition newUserMessage :: "string \<Rightarrow> chat_message_row \<Rightarrow> message" where
  "newUserMessage now userMessageData =
     \<lparr>message_id = row_id userMessageData,
      content = row_content userMessageData,
      role = row_role userMessageData,
      timestamp = or_else (row_timestamp userMessageData) now,
      isError = None,
      originalUserMessageContent = None,
      imageUrl = row_image_url userMessageData,
      imageMimeType = row_image_mime_type userMessageData,
      attachedDocumentIds = Some (or_empty (row_attached_document_ids userMessageData)),
      attachedNoteIds = Some (or_empty (row_attached_note_ids userMessageData))\<rparr>"

text \<open>Example surroundings: an AI service that is down, and one that answers.\<close>

definition failingAi :: ai_env where
  "failingAi =
     \<lparr>ai_invoke = (\<lambda>rq. InvokeError ''The model is overloaded''),
      ai_updateDbError = None,
      ai_insertedAiMessage = Inr (Some (exampleRow ''a9'' ''2024-01-01T10:00:05Z'')),
      ai_messageNow = ''2024-01-01T10:00:06Z'',
      ai_sessionNow = ''2024-01-01T10:00:07Z'',
      ai_randomUUID = ''uuid-1'',
      ai_getTime = digitsValue\<rparr>"

definition answeringAi :: ai_env where
  "answeringAi = failingAi\<lparr>ai_invoke := (\<lambda>rq. InvokeData (Some ''Here is the answer.''))\<rparr>"

definition exampleSubmit :: submit_env where
  "exampleSubmit =
     \<lparr>sub_authUser = Some ''u1'',
      sub_createdSession = Inr (Some (exampleSessionRow ''s1'')),
      sub_refreshedDocument = Inl ''not found'',
      sub_insertedUserMessage = Inr (Some (exampleRow ''m7'' ''2024-01-01T10:00:04Z'')),
      sub_now = ''2024-01-01T10:00:04Z''\<rparr>"

text \<open>A conversation of one question and one answer in session \<open>s1\<close>.\<close>

definition conversation :: index_state where
  "conversation =
     initialState\<lparr>activeChatSessionId := Some ''s1'',
        chatSessions := [formatSession (exampleSessionRow ''s1'')],
        chatMessages := [exampleMessage ''m1'' ''user'' ''What is a monad?'',
                         exampleMessage ''m2'' ''assistant'' ''A monoid.'']\<rparr>"

subsection \<open>Routines that await\<close>

text \<open>
  An asynchronous routine runs in steps. A step is the synchronous code between two
  awaits of a remote call: it is given by the remote call it ends in awaiting and by
  the setter calls it makes, a function of the state of the moment, since other
  routines can run while it awaits. Which steps a routine takes depends on the state
  its callback captured and on the answers it gets, not on the state of the moment.
  A routine is the steps that end in an await, the synchronous code after the last
  await, and the value returned. The return of an awaited routine of the page to its
  caller is no step boundary: the code after the last remote call of the callee and
  the code of the caller up to its next remote call make one step.
\<close>

datatype await_point =
  AwaitGetUser
| AwaitInsertSession
| AwaitSelectSessions
| AwaitSelectDocument
| AwaitInsertUserMessage
| AwaitInvokeAI
| AwaitSaveAiMessage
| AwaitUpdateSession
| AwaitUpdateSessionDocuments
| Completed

type_synonym step = "await_point \<times> (index_state \<Rightarrow> index_state)"

type_synonym 'r routine = "step list \<times> (index_state \<Rightarrow> index_state) \<times> 'r"

definition returns :: "'r \<Rightarrow> 'r routine" where
  "returns r = ([], (\<lambda>s. s), r)"

definition setting :: "(index_state \<Rightarrow> index_state) \<Rightarrow> unit routine" where
  "setting f = ([], f, ())"

definition awaiting :: "await_point \<Rightarrow> unit routine" where
  "awaiting p = ([(p, (\<lambda>s. s))], (\<lambda>s. s), ())"

text \<open>
  \<open>andThen m k\<close>: \<open>m\<close>, then \<open>k\<close> on its value. The code of \<open>m\<close> after its last await
  and the code of \<open>k\<close> before its first one run as one step.
\<close>

definition andThen :: "'a routine \<Rightarrow> ('a \<Rightarrow> 'b routine) \<Rightarrow> 'b routine" where
  "andThen m k =
     (case m of
        (steps, f, r) \<Rightarrow>
          (case k r of
             ([], g, r') \<Rightarrow> (steps, (\<lambda>s. g (f s)), r')
           | ((p, h) # rest, g, r') \<Rightarrow> (steps @ (p, (\<lambda>s. h (f s))) # rest, g, r')))"

text \<open>The steps of a whole routine; the last one ends in its completion.\<close>

definition stepsOf :: "'r routine \<Rightarrow> step list" where
  "stepsOf m = (case m of (steps, f, r) \<Rightarrow> steps @ [(Completed, f)])"

text \<open>The states at the awaits and at completion when nothing else runs in between.\<close>

fun awaitStates :: "step list \<Rightarrow> index_state \<Rightarrow> (await_point \<times> index_state) list" where
  "awaitStates [] s = []"
| "awaitStates ((p, f) # steps) s = (p, f s) # awaitStates steps (f s)"

definition runSteps :: "step list \<Rightarrow> index_state \<Rightarrow> index_state" where
  "runSteps steps s = foldl (\<lambda>s step. snd step s) s steps"

definition runAlone :: "'r routine \<Rightarrow> index_state \<Rightarrow> index_state" where
  "runAlone m s = runSteps (stepsOf m) s"

text \<open>\<open>loadChatSessions\<close> as a routine: the read, then the setters on its answer.\<close>

definition loadChatSessionsRoutine :: "index_state \<Rightarrow> remote \<Rightarrow> unit routine" where
  "loadChatSessionsRoutine cl env =
     (case user cl of
        None \<Rightarrow> returns ()
      | Some u \<Rightarrow>
          andThen (awaiting AwaitSelectSessions) (\<lambda>_.
          setting (loadChatSessionsFrom cl env)))"

text \<open>
  \<open>createNewChatSession\<close>: returns the new session identifier, or \<open>null\<close>. It reads the
  captured state \<open>cl\<close> and runs the captured \<open>loadChatSessions\<close>; \<open>created\<close> is the
  \<open>{data, error}\<close> of the session insert.
\<close>

definition createNewChatSession ::
  "index_state \<Rightarrow> remote \<Rightarrow> chat_session_row option response \<Rightarrow> string option routine" where
  "createNewChatSession cl env created =
     (if user cl = None then returns None
      else
        andThen (awaiting AwaitInsertSession) (\<lambda>_.
        case created of
          Inl e \<Rightarrow> returns None
        | Inr None \<Rightarrow> returns None
        | Inr (Some data) \<Rightarrow>
            andThen (setting (\<lambda>s. s\<lparr>chatSessionsLoadedCount := CHAT_SESSIONS_PER_PAGE\<rparr>)) (\<lambda>_.
            andThen (loadChatSessionsRoutine cl env) (\<lambda>_.
            andThen (setting (\<lambda>s. s\<lparr>activeChatSessionId := Some (session_id (formatSession data)),
                                      chatMessages := [], hasMoreMessages := False\<rparr>)) (\<lambda>_.
            returns (Some (session_id (formatSession data))))))))"

text \<open>
  \<open>refreshUploadedDocument\<close>: \<open>fetched\<close> is the \<open>{data, error}\<close> of the document read;
  returns the refreshed document, or \<open>null\<close>.
\<close>

definition refreshedDocData :: "document \<Rightarrow> document" where
  "refreshedDocData data =
     data\<lparr>processing_status :=
            Some (case processing_status data of None \<Rightarrow> ''unknown'' | Some s \<Rightarrow> s)\<rparr>"

definition refreshUploadedDocument :: "document response \<Rightarrow> string \<Rightarrow> document option routine" where
  "refreshUploadedDocument fetched docId =
     andThen (awaiting AwaitSelectDocument) (\<lambda>_.
     case fetched of
       Inl e \<Rightarrow> returns None
     | Inr data \<Rightarrow>
         andThen (setting (\<lambda>s. s\<lparr>documents :=
                                  map (\<lambda>doc. if doc_id doc = docId then refreshedDocData data
                                             else doc) (documents s)\<rparr>)) (\<lambda>_.
         returns (Some (refreshedDocData data))))"

text \<open>
  The end of the \<open>try\<close> block of \<open>_getAIResponse\<close>: the session update is awaited (its
  \<open>error\<close> is only logged), then the session list is set.
\<close>

definition touchSessionRoutine :: "ai_env \<Rightarrow> string \<Rightarrow> string list \<Rightarrow> string option option routine" where
  "touchSessionRoutine env sessionId attachedDocs =
     andThen (awaiting AwaitUpdateSession) (\<lambda>_.
     andThen (setting (\<lambda>s. s\<lparr>chatSessions :=
                              touchSession env sessionId attachedDocs (chatSessions s)\<rparr>)) (\<lambda>_.
     returns None))"

text \<open>
  The \<open>try\<close> block of \<open>_getAIResponse\<close> as a routine: it returns the \<open>message\<close> of the
  error thrown (\<open>Some\<close>), or \<open>None\<close> when it ran to its end.
\<close>

definition aiTryRoutine ::
  "index_state \<Rightarrow> ai_env \<Rightarrow> string \<Rightarrow> string \<Rightarrow> string \<Rightarrow> string list \<Rightarrow> string option \<Rightarrow>
   string option \<Rightarrow> string option \<Rightarrow> string option option routine" where
  "aiTryRoutine cl env userMessageContent userId sessionId attachedDocs aiMessageIdToUpdate
     imageDataBase64 imageMime =
     andThen (awaiting AwaitInvokeAI) (\<lambda>_.
     case aiResponseContent (ai_invoke env
            \<lparr>rq_userId = userId, rq_sessionId = sessionId,
             rq_chatHistory = chatHistory cl userMessageContent aiMessageIdToUpdate
                                imageDataBase64 imageMime\<rparr>) of
       Inl errorMessage \<Rightarrow> returns (Some errorMessage)
     | Inr aiResponse \<Rightarrow>
         andThen (awaiting AwaitSaveAiMessage) (\<lambda>_.
         if truthy aiMessageIdToUpdate then
           (case ai_updateDbError env of
              Some e \<Rightarrow> returns (Some (Some ''Failed to save AI response''))
            | None \<Rightarrow>
                andThen (setting (\<lambda>s. s\<lparr>chatMessages :=
                             map (\<lambda>msg. if Some (message_id msg) = aiMessageIdToUpdate
                                        then msg\<lparr>content := aiResponse,
                                               timestamp := ai_messageNow env,
                                               isError := Some False\<rparr>
                                        else msg) (chatMessages s)\<rparr>)) (\<lambda>_.
                touchSessionRoutine env sessionId attachedDocs))
         else
           (case ai_insertedAiMessage env of
              Inl e \<Rightarrow> returns (Some (Some ''Failed to save AI response''))
            | Inr newAiMessageData \<Rightarrow>
                andThen (setting (\<lambda>s. s\<lparr>chatMessages := chatMessages s @
                             [\<lparr>message_id =
                                 or_else (map_option row_id newAiMessageData) (ai_randomUUID env),
                               content = aiResponse,
                               role = ''assistant'',
                               timestamp =
                                 or_else (Option.bind newAiMessageData row_timestamp)
                                   (ai_messageNow env),
                               isError = Some False,
                               originalUserMessageContent = None,
                               imageUrl = None, imageMimeType = None,
                               attachedDocumentIds = None, attachedNoteIds = None\<rparr>]\<rparr>)) (\<lambda>_.
                touchSessionRoutine env sessionId attachedDocs))))"

text \<open>
  \<open>_getAIResponse\<close> as a routine: the guard, \<open>setIsAILoading(true)\<close>, the \<open>try\<close>
  block, the \<open>catch\<close> block when an error was thrown, and \<open>setIsAILoading(false)\<close> in
  the \<open>finally\<close> block.
\<close>

definition getAIResponseRoutine ::
  "index_state \<Rightarrow> ai_env \<Rightarrow> string \<Rightarrow> string option \<Rightarrow> string \<Rightarrow> string list \<Rightarrow> string list \<Rightarrow>
   string option \<Rightarrow> string option \<Rightarrow> string option \<Rightarrow> unit routine" where
  "getAIResponseRoutine cl env userMessageContent currentUser sessionId attachedDocs
     attachedNotes aiMessageIdToUpdate imageDataBase64 imageMime =
     (case currentUser of
        None \<Rightarrow> returns ()
      | Some userId \<Rightarrow>
          if sessionId = [] then returns ()
          else
            andThen (setting (\<lambda>s. s\<lparr>isAILoading := True\<rparr>)) (\<lambda>_.
            andThen (aiTryRoutine cl env userMessageContent userId sessionId attachedDocs
                       aiMessageIdToUpdate imageDataBase64 imageMime) (\<lambda>thrown.
            andThen (case thrown of
                       None \<Rightarrow> returns ()
                     | Some errorMessage \<Rightarrow>
                         setting (aiCatch env errorMessage userMessageContent
                                    aiMessageIdToUpdate)) (\<lambda>_.
            setting (\<lambda>s. s\<lparr>isAILoading := False\<rparr>)))))"

text \<open>\<open>handleRegenerateResponse\<close> as a routine.\<close>

definition handleRegenerateResponseRoutine ::
  "index_state \<Rightarrow> ai_env \<Rightarrow> string \<Rightarrow> string \<Rightarrow> unit routine" where
  "handleRegenerateResponseRoutine cl env now lastUserMessageContent =
     (if user cl = None \<or> \<not> truthy (activeChatSessionId cl) then returns ()
      else
        (case find (\<lambda>msg. role msg = ''user'') (rev (chatMessages cl)) of
           None \<Rightarrow> returns ()
         | Some lastUserMessage \<Rightarrow>
             (case find (\<lambda>msg. role msg = ''assistant'') (rev (chatMessages cl)) of
                None \<Rightarrow> returns ()
              | Some lastAssistantMessage \<Rightarrow>
                  andThen (setting (\<lambda>s. s\<lparr>chatMessages :=
                               thinking now (message_id lastAssistantMessage) (chatMessages s)\<rparr>)) (\<lambda>_.
                  getAIResponseRoutine cl env lastUserMessageContent (user cl)
                    (or_else (activeChatSessionId cl) [])
                    (or_empty (attachedDocumentIds lastUserMessage))
                    (or_empty (attachedNoteIds lastUserMessage))
                    (Some (message_id lastAssistantMessage)) None None))))"


text \<open>
  The parts of the \<open>try\<close> block of \<open>handleSubmit\<close>. The session to write to: the
  active one, or a new one.
\<close>

definition currentSessionFor :: "index_state \<Rightarrow> remote \<Rightarrow> submit_env \<Rightarrow> string option routine" where
  "currentSessionFor cl env senv =
     (if truthy (activeChatSessionId cl) then returns (activeChatSessionId cl)
      else createNewChatSession cl env (sub_createdSession senv))"

text \<open>The refresh of the attached image document, when there is one.\<close>

definition refreshImageDocument ::
  "index_state \<Rightarrow> submit_env \<Rightarrow> string list \<Rightarrow> string option \<Rightarrow> unit routine" where
  "refreshImageDocument cl senv finalAttachedDocumentIds imageUrlArg =
     (if truthy imageUrlArg \<and> length finalAttachedDocumentIds > 0 then
        (case find (\<lambda>docId.
                 case find (\<lambda>d. doc_id d = docId) (documents cl) of
                   None \<Rightarrow> False
                 | Some doc \<Rightarrow> doc_type doc = ''image'' \<and> Some (file_url doc) = imageUrlArg)
                finalAttachedDocumentIds of
           None \<Rightarrow> returns ()
         | Some imageDocId \<Rightarrow>
             if imageDocId = [] then returns ()
             else andThen (refreshUploadedDocument (sub_refreshedDocument senv) imageDocId)
                    (\<lambda>refreshedDoc. returns ()))
      else returns ())"

text \<open>
  The user message is saved and added to the buffer, \<open>_getAIResponse\<close> is awaited, and
  then the update of the session's \<open>document_ids\<close>, whose \<open>error\<close> is only logged. A
  failed save is thrown and caught.
\<close>

definition saveAndAnswer ::
  "index_state \<Rightarrow> submit_env \<Rightarrow> ai_env \<Rightarrow> string \<Rightarrow> string list \<Rightarrow> string list \<Rightarrow>
   string option \<Rightarrow> string option \<Rightarrow> string \<Rightarrow> string \<Rightarrow> unit routine" where
  "saveAndAnswer cl senv aenv trimmedMessage finalAttachedDocumentIds finalAttachedNoteIds
     imageMime imageDataBase64 currentUser currentSessionId =
     andThen (setting (\<lambda>s. s\<lparr>selectedDocumentIds := finalAttachedDocumentIds\<rparr>)) (\<lambda>_.
     andThen (awaiting AwaitInsertUserMessage) (\<lambda>_.
     case sub_insertedUserMessage senv of
       Inl e \<Rightarrow> returns ()
     | Inr None \<Rightarrow> returns ()
     | Inr (Some userMessageData) \<Rightarrow>
         andThen (setting (\<lambda>s. s\<lparr>chatMessages := chatMessages s @
                      [newUserMessage (sub_now senv) userMessageData]\<rparr>)) (\<lambda>_.
         andThen (getAIResponseRoutine cl aenv trimmedMessage (Some currentUser)
                    currentSessionId finalAttachedDocumentIds finalAttachedNoteIds None
                    imageDataBase64 imageMime) (\<lambda>_.
         awaiting AwaitUpdateSessionDocuments))))"

text \<open>
  The \<open>try\<close> block of \<open>handleSubmit\<close> with its \<open>catch\<close>: a \<open>return\<close> and a caught
  error both end it.
\<close>

definition submitTry ::
  "index_state \<Rightarrow> remote \<Rightarrow> submit_env \<Rightarrow> ai_env \<Rightarrow> string \<Rightarrow> string list option \<Rightarrow>
   string list option \<Rightarrow> string option \<Rightarrow> string option \<Rightarrow> string option \<Rightarrow> unit routine" where
  "submitTry cl env senv aenv messageContent attachedDocs attachedNotes imageUrlArg imageMime
     imageDataBase64 =
     andThen (awaiting AwaitGetUser) (\<lambda>_.
     case sub_authUser senv of
       None \<Rightarrow> returns ()
     | Some currentUser \<Rightarrow>
         andThen (currentSessionFor cl env senv) (\<lambda>currentSessionId.
         case currentSessionId of
           None \<Rightarrow> returns ()
         | Some sessionId \<Rightarrow>
             if sessionId = [] then returns ()
             else
               andThen (refreshImageDocument cl senv (or_empty attachedDocs) imageUrlArg) (\<lambda>_.
               saveAndAnswer cl senv aenv (trim messageContent) (or_empty attachedDocs)
                 (or_empty attachedNotes) imageMime imageDataBase64 currentUser sessionId)))"

text \<open>
  \<open>handleSubmit\<close>: the entry guard, \<open>setIsSubmittingUserMessage(true)\<close>, the \<open>try\<close>
  block, and \<open>setIsSubmittingUserMessage(false)\<close> in the \<open>finally\<close> block.
\<close>

definition handleSubmit ::
  "index_state \<Rightarrow> remote \<Rightarrow> submit_env \<Rightarrow> ai_env \<Rightarrow> string \<Rightarrow> string list option \<Rightarrow>
   string list option \<Rightarrow> string option \<Rightarrow> string option \<Rightarrow> string option \<Rightarrow> unit routine" where
  "handleSubmit cl env senv aenv messageContent attachedDocs attachedNotes imageUrlArg imageMime
     imageDataBase64 =
     (if submitRejected cl messageContent attachedDocs attachedNotes imageUrlArg then returns ()
      else
        andThen (setting (\<lambda>s. s\<lparr>isSubmittingUserMessage := True\<rparr>)) (\<lambda>_.
        andThen (submitTry cl env senv aenv messageContent attachedDocs attachedNotes imageUrlArg
                   imageMime imageDataBase64) (\<lambda>_.
        setting (\<lambda>s. s\<lparr>isSubmittingUserMessage := False\<rparr>))))"

text \<open>
  What a step does to the two flags, whatever the state of the moment: it sets
  \<open>isSubmittingUserMessage\<close> to \<open>sub\<close> and \<open>isAILoading\<close> to \<open>ai\<close>, where \<open>None\<close>
  stands for leaving the flag as it is.
\<close>

definition flagWrites :: "(index_state \<Rightarrow> index_state) \<Rightarrow> bool option \<Rightarrow> bool option \<Rightarrow> bool" where
  "flagWrites f sub ai =
     (\<forall>s. isSubmittingUserMessage (f s) =
            (case sub of None \<Rightarrow> isSubmittingUserMessage s | Some b \<Rightarrow> b) \<and>
          isAILoading (f s) = (case ai of None \<Rightarrow> isAILoading s | Some b \<Rightarrow> b))"

text \<open>
  The flag discipline of a submission, step by step: the step that ends in awaiting
  \<open>auth.getUser()\<close> raises \<open>isSubmittingUserMessage\<close> and the step that completes the
  routine lowers it; the step that ends in awaiting the AI invocation raises
  \<open>isAILoading\<close> and the step that ends in awaiting the update of the session's
  documents, which holds the \<open>finally\<close> block of \<open>_getAIResponse\<close>, lowers it; no other
  step writes either flag.
\<close>

definition flagDiscipline :: "step \<Rightarrow> bool" where
  "flagDiscipline step =
     flagWrites (snd step)
       (if fst step = AwaitGetUser then Some True
        else if fst step = Completed then Some False else None)
       (if fst step = AwaitInvokeAI then Some True
        else if fst step = AwaitUpdateSessionDocuments then Some False else None)"

text \<open>
  The flags as they stand at an await or at completion: at completion both are false;
  at an await \<open>isSubmittingUserMessage\<close> is true, and \<open>isAILoading\<close> is true exactly
  at the awaits of \<open>_getAIResponse\<close>.
\<close>

definition flagsAsDue :: "await_point \<times> index_state \<Rightarrow> bool" where
  "flagsAsDue ps =
     (if fst ps = Completed
      then (\<not> isSubmittingUserMessage (snd ps) \<and> \<not> isAILoading (snd ps))
      else (isSubmittingUserMessage (snd ps) \<and>
            isAILoading (snd ps) =
              (fst ps \<in> set [AwaitInvokeAI, AwaitSaveAiMessage, AwaitUpdateSession])))"

text \<open>
  A routine that follows the synchronous code \<open>f\<close>: \<open>f\<close> runs in its first step, or,
  when the routine awaits nothing, with its code after the last await.
\<close>

definition fusedSteps :: "(index_state \<Rightarrow> index_state) \<Rightarrow> 'r routine \<Rightarrow> step list" where
  "fusedSteps f m =
     (case m of
        ([], g, r) \<Rightarrow> []
      | ((p, h) # rest, g, r) \<Rightarrow> (p, (\<lambda>s. h (f s))) # rest)"

definition fusedFinal :: "(index_state \<Rightarrow> index_state) \<Rightarrow> 'r routine \<Rightarrow> index_state \<Rightarrow> index_state" where
  "fusedFinal f m =
     (case m of
        ([], g, r) \<Rightarrow> (\<lambda>s. g (f s))
      | ((p, h) # rest, g, r) \<Rightarrow> g)"

definition returned :: "'r routine \<Rightarrow> 'r" where
  "returned m = snd (snd m)"

text \<open>
  The write of a step to a flag, by the await it ends in (inside a submission, where no
  step completes the routine): \<open>None\<close> stands for leaving the flag as it is.
\<close>

definition submittingWrite :: "await_point \<Rightarrow> bool option" where
  "submittingWrite p = (if p = AwaitGetUser then Some True else None)"

definition loadingWrite :: "await_point \<Rightarrow> bool option" where
  "loadingWrite p =
     (if p = AwaitInvokeAI then Some True
      else if p = AwaitUpdateSessionDocuments then Some False else None)"

text \<open>A later write to a flag, if any, else the earlier one.\<close>

definition later :: "bool option \<Rightarrow> bool option \<Rightarrow> bool option" where
  "later w w0 = (case w of None \<Rightarrow> w0 | Some b \<Rightarrow> Some b)"

text \<open>
  \<open>writesAsDue (a, b) m (a', b')\<close>: when \<open>m\<close> follows code that writes \<open>a\<close> and \<open>b\<close> to
  the two flags, each of its steps writes what is due at its await, and its code after
  the last await writes \<open>a'\<close> and \<open>b'\<close>.
\<close>

definition writesAsDue ::
  "bool option \<times> bool option \<Rightarrow> 'r routine \<Rightarrow> bool option \<times> bool option \<Rightarrow> bool" where
  "writesAsDue w m w' =
     (\<forall>f. flagWrites f (fst w) (snd w) \<longrightarrow>
          list_all (\<lambda>step. fst step \<noteq> Completed \<and>
                      flagWrites (snd step) (submittingWrite (fst step)) (loadingWrite (fst step)))
            (fusedSteps f m) \<and>
          flagWrites (fusedFinal f m) (fst w') (snd w'))"

text \<open>
  \<open>runsAsDue (x, y) m (x', y')\<close>: when \<open>m\<close> follows code that leaves the flags at \<open>x\<close>
  and \<open>y\<close>, and nothing else runs while it awaits, the flags are as due at each of its
  awaits, and \<open>x'\<close> and \<open>y'\<close> after its last code.
\<close>

definition runsAsDue :: "bool \<times> bool \<Rightarrow> 'r routine \<Rightarrow> bool \<times> bool \<Rightarrow> bool" where
  "runsAsDue v m v' =
     (\<forall>f s. isSubmittingUserMessage (f s) = fst v \<and> isAILoading (f s) = snd v \<longrightarrow>
          list_all (\<lambda>ps. fst ps \<noteq> Completed \<and> flagsAsDue ps) (awaitStates (fusedSteps f m) s) \<and>
          isSubmittingUserMessage (fusedFinal f m (runSteps (fusedSteps f m) s)) = fst v' \<and>
          isAILoading (fusedFinal f m (runSteps (fusedSteps f m) s)) = snd v')"

subsection \<open>Audio job poller of the note editor\<close>

text \<open>
  The audio-related state of \<open>NoteEditor\<close>. \<open>pollInterval\<close> is the live polling
  interval, given by the job identifier its \<open>pollJobStatus\<close> closure captured; it is
  \<open>None\<close> when no interval is live (none was started, or it was cleared). A cleared
  interval never fires. \<open>noteUpdates\<close> collects the arguments of the \<open>onNoteUpdate\<close>
  calls. The title, category, tags and speech state of the editor play no part in
  polling and are left out.
\<close>

record audio_details =
  ad_url :: string
  ad_type :: string
  ad_name :: string

text \<open>
  Modelled from the spec: a row of \<open>audio_processing_results\<close>, with the columns that
  \<open>pollJobStatus\<close> reads (the generated declaration is not among the sources).
\<close>

record audio_result =
  ar_status :: string
  ar_transcript :: "string option"
  ar_summary :: "string option"
  ar_translated_content :: "string option"
  ar_document_id :: "string option"
  ar_error_message :: "string option"

record note_update =
  nu_content :: string
  nu_aiSummary :: string
  nu_document_id :: "string option"

record editor_state =
  userProfile :: "string option"
  editorContent :: string
  translatedContent :: "string option"
  targetLanguage :: string
  uploadedAudioDetails :: "audio_details option"
  isProcessingAudio :: bool
  isGeneratingAudioNote :: bool
  isGeneratingAudioSummary :: bool
  isTranslatingAudio :: bool
  isAudioOptionsVisible :: bool
  audioProcessingJobId :: "string option"
  pollInterval :: "string option"
  noteUpdates :: "note_update list"

text \<open>
  The setters every terminal branch of \<open>pollJobStatus\<close> calls, and
  \<open>clearInterval(pollInterval)\<close>.
\<close>

definition clearAudioJob :: "editor_state \<Rightarrow> editor_state" where
  "clearAudioJob st =
     st\<lparr>audioProcessingJobId := None, isProcessingAudio := False,
        isGeneratingAudioNote := False, isGeneratingAudioSummary := False,
        isTranslatingAudio := False, isAudioOptionsVisible := False,
        pollInterval := None\<rparr>"

text \<open>
  \<open>pollJobStatus\<close>: \<open>job\<close> and \<open>profile\<close> are the \<open>audioProcessingJobId\<close> and
  \<open>userProfile\<close> its closure captured, \<open>resp\<close> the \<open>{data, error}\<close> of the status
  read. A failed read is caught and handled like a terminal status.
\<close>

definition pollJobStatus ::
  "string option \<Rightarrow> string option \<Rightarrow> audio_result option response \<Rightarrow> editor_state \<Rightarrow> editor_state" where
  "pollJobStatus job profile resp st =
     (if \<not> truthy job \<or> profile = None then st
      else case resp of
             Inl e \<Rightarrow> clearAudioJob st
           | Inr None \<Rightarrow> st
           | Inr (Some audioResult) \<Rightarrow>
               if ar_status audioResult = ''completed'' then
                 clearAudioJob
                   (st\<lparr>editorContent :=
                          or_else (ar_transcript audioResult) ''No transcription available.'',
                       noteUpdates := noteUpdates st @
                          [\<lparr>nu_content = or_else (ar_transcript audioResult) [],
                            nu_aiSummary =
                              or_else (ar_summary audioResult) ''No summary available.'',
                            nu_document_id = or_undefined (ar_document_id audioResult)\<rparr>],
                       translatedContent := or_undefined (ar_translated_content audioResult)\<rparr>)
               else if ar_status audioResult = ''error'' then clearAudioJob st
               else st)"

text \<open>
  The polling effect, run when \<open>audioProcessingJobId\<close> (or another dependency) has
  changed: its cleanup clears the interval of the previous run, and its body starts an
  interval for the job when the identifier is truthy.
\<close>

definition pollingEffect :: "editor_state \<Rightarrow> editor_state" where
  "pollingEffect st =
     st\<lparr>pollInterval :=
          (if truthy (audioProcessingJobId st) then audioProcessingJobId st else None)\<rparr>"

text \<open>
  The result of invoking \<open>process-audio\<close>: the job identifier the handler goes on
  with (\<open>if (error) throw error; if (!data || !data.job_id) throw ...\<close>).
\<close>

definition startedJobId :: "string option response \<Rightarrow> string option" where
  "startedJobId invoked =
     (case invoked of
        Inl e \<Rightarrow> None
      | Inr None \<Rightarrow> None
      | Inr (Some job_id) \<Rightarrow> if job_id = [] then None else Some job_id)"

text \<open>\<open>docInserted\<close>: the document row for the audio file was created.\<close>

definition handleGenerateNoteFromAudio ::
  "bool \<Rightarrow> string option response \<Rightarrow> editor_state \<Rightarrow> editor_state" where
  "handleGenerateNoteFromAudio docInserted invoked st =
     (if uploadedAudioDetails st = None \<or> userProfile st = None then st
      else
        (let st1 = st\<lparr>isGeneratingAudioNote := True\<rparr>;
             st2 = (if \<not> docInserted then st1
                    else case startedJobId invoked of
                           None \<Rightarrow> st1
                         | Some job_id \<Rightarrow>
                             st1\<lparr>audioProcessingJobId := Some job_id,
                                 isProcessingAudio := True\<rparr>)
         in st2\<lparr>isGeneratingAudioNote := False\<rparr>))"

definition handleGenerateSummaryFromAudio ::
  "string option response \<Rightarrow> editor_state \<Rightarrow> editor_state" where
  "handleGenerateSummaryFromAudio invoked st =
     (if uploadedAudioDetails st = None \<or> userProfile st = None then st
      else
        (let st1 = st\<lparr>isGeneratingAudioSummary := True\<rparr>;
             st2 = (case startedJobId invoked of
                      None \<Rightarrow> st1
                    | Some job_id \<Rightarrow>
                        st1\<lparr>audioProcessingJobId := Some job_id, isProcessingAudio := True\<rparr>)
         in st2\<lparr>isGeneratingAudioSummary := False\<rparr>))"

definition handleTranslateAudio ::
  "string option response \<Rightarrow> editor_state \<Rightarrow> editor_state" where
  "handleTranslateAudio invoked st =
     (if uploadedAudioDetails st = None \<or> userProfile st = None then st
      else if targetLanguage st = ''en'' then st
      else
        (let st1 = st\<lparr>isTranslatingAudio := True\<rparr>;
             st2 = (case startedJobId invoked of
                      None \<Rightarrow> st1
                    | Some job_id \<Rightarrow>
                        st1\<lparr>audioProcessingJobId := Some job_id, isProcessingAudio := True\<rparr>)
         in st2\<lparr>isTranslatingAudio := False\<rparr>))"

definition handleClearAudioProcessing :: "editor_state \<Rightarrow> editor_state" where
  "handleClearAudioProcessing st =
     st\<lparr>uploadedAudioDetails := None, isAudioOptionsVisible := False,
        audioProcessingJobId := None, isProcessingAudio := False,
        isGeneratingAudioNote := False, isGeneratingAudioSummary := False,
        isTranslatingAudio := False, translatedContent := None\<rparr>"

text \<open>The effect that runs when the \<open>note\<close> prop changes; \<open>c\<close> is the new note's content.\<close>

definition noteEffect :: "string \<Rightarrow> editor_state \<Rightarrow> editor_state" where
  "noteEffect c st =
     st\<lparr>editorContent := c, translatedContent := None, targetLanguage := ''en'',
        uploadedAudioDetails := None, isAudioOptionsVisible := False,
        audioProcessingJobId := None\<rparr>"

text \<open>
  What can happen to the editor, as far as the job identifier is concerned: a
  \<open>pollJobStatus\<close> call of the live interval (its first call or a later tick) gets its
  answer, a handler runs, or a prop changes. After each, the polling effect brings the
  interval in line with the job identifier. \<open>Poll\<close> does nothing when no interval is
  live.
\<close>

datatype editor_event =
  Poll "audio_result option response"
| GenerateNoteFromAudio bool "string option response"
| GenerateSummaryFromAudio "string option response"
| TranslateAudio "string option response"
| ClearAudioProcessing
| NoteChanged string
| ProfileChanged "string option"

fun editorStep :: "editor_state \<Rightarrow> editor_event \<Rightarrow> editor_state" where
  "editorStep st (Poll resp) =
     (case pollInterval st of
        None \<Rightarrow> st
      | Some job \<Rightarrow> pollingEffect (pollJobStatus (Some job) (userProfile st) resp st))"
| "editorStep st (GenerateNoteFromAudio docInserted invoked) =
     pollingEffect (handleGenerateNoteFromAudio docInserted invoked st)"
| "editorStep st (GenerateSummaryFromAudio invoked) =
     pollingEffect (handleGenerateSummaryFromAudio invoked st)"
| "editorStep st (TranslateAudio invoked) = pollingEffect (handleTranslateAudio invoked st)"
| "editorStep st ClearAudioProcessing = pollingEffect (handleClearAudioProcessing st)"
| "editorStep st (NoteChanged c) = pollingEffect (noteEffect c st)"
| "editorStep st (ProfileChanged p) = pollingEffect (st\<lparr>userProfile := p\<rparr>)"

definition editorRun :: "editor_state \<Rightarrow> editor_event list \<Rightarrow> editor_state" where
  "editorRun st evs = foldl editorStep st evs"

text \<open>A status read that ends polling: a failed read, or status completed or error.\<close>

definition terminal :: "audio_result option response \<Rightarrow> bool" where
  "terminal resp =
     (case resp of
        Inl e \<Rightarrow> True
      | Inr None \<Rightarrow> False
      | Inr (Some audioResult) \<Rightarrow>
          ar_status audioResult = ''completed'' \<or> ar_status audioResult = ''error'')"

text \<open>The event is a handler to which the audio processor hands job identifier \<open>j\<close>.\<close>

fun startsJob :: "string \<Rightarrow> editor_event \<Rightarrow> bool" where
  "startsJob j (GenerateNoteFromAudio docInserted invoked) = (startedJobId invoked = Some j)"
| "startsJob j (GenerateSummaryFromAudio invoked) = (startedJobId invoked = Some j)"
| "startsJob j (TranslateAudio invoked) = (startedJobId invoked = Some j)"
| "startsJob j _ = False"

text \<open>An editor in which job \<open>job-1\<close> is being polled.\<close>

definition pollingEditor :: editor_state where
  "pollingEditor =
     \<lparr>userProfile = Some ''u1'', editorContent = [], translatedContent = None,
      targetLanguage = ''fr'',
      uploadedAudioDetails =
        Some \<lparr>ad_url = ''https://example.org/a.mp3'', ad_type = ''audio/mpeg'', ad_name = ''a.mp3''\<rparr>,
      isProcessingAudio = True, isGeneratingAudioNote = False,
      isGeneratingAudioSummary = False, isTranslatingAudio = False,
      isAudioOptionsVisible = True, audioProcessingJobId = Some ''job-1'',
      pollInterval = Some ''job-1'', noteUpdates = []\<rparr>"

definition completedResult :: audio_result where
  "completedResult =
     \<lparr>ar_status = ''completed'', ar_transcript = Some ''Welcome to the lecture.'',
      ar_summary = Some ''An introduction.'', ar_translated_content = None,
      ar_document_id = Some ''d7'', ar_error_message = None\<rparr>"

section \<open>Properties\<close>

subsection \<open>Pagination flags\<close>

lemma requestedSize_sessionsQuery: "requestedSize (sessionsQuery u n) = n"
  by (simp add: requestedSize_def sessionsQuery_def)

text \<open>
  C10. If the read inside \<open>loadSessionMessages\<close> fails, the message buffer is set to
  the empty list: the messages shown before are not kept.
\<close>

theorem loadSessionMessages_failure_clears:
  assumes "user st \<noteq> None"
    and "select_messages env (latestQuery sessionId) = Inl e"
  shows "chatMessages (loadSessionMessages env now sessionId st) = []"
  using assms by (auto simp: loadSessionMessages_def)

theorem loadSessionMessages_failure_clears_witness:
  "user (initialState\<lparr>chatMessages := [exampleMessage ''m1'' ''user'' ''hi'']\<rparr>) \<noteq> None \<and>
   select_messages tenSessions (latestQuery ''s1'') = Inl ''network error'' \<and>
   chatMessages (initialState\<lparr>chatMessages := [exampleMessage ''m1'' ''user'' ''hi'']\<rparr>) \<noteq> [] \<and>
   chatMessages (loadSessionMessages tenSessions ''now'' ''s1''
     (initialState\<lparr>chatMessages := [exampleMessage ''m1'' ''user'' ''hi'']\<rparr>)) = []"
proof -
  let ?st = "initialState\<lparr>chatMessages := [exampleMessage ''m1'' ''user'' ''hi'']\<rparr>"
  have u: "user ?st \<noteq> None" by (simp add: initialState_def)
  have f: "select_messages tenSessions (latestQuery ''s1'') = Inl ''network error''"
    by (simp add: tenSessions_def)
  from loadSessionMessages_failure_clears [OF u f] u f show ?thesis by simp
qed

text \<open>
  C8 as stated fails for the session list: after one \<open>handleLoadMoreChatSessions\<close> the
  running counter is 20, and a read that returns ten rows leaves the flag false.
\<close>

theorem hasMoreChatSessions_not_ten:
  "length (replicate 10 (exampleSessionRow ''s1'')) = 10 \<and>
   select_sessions tenSessions
     (sessionsQuery ''u1'' (chatSessionsLoadedCount (handleLoadMoreChatSessions initialState)))
     = Inr (replicate 10 (exampleSessionRow ''s1'')) \<and>
   \<not> hasMoreChatSessions (loadChatSessions tenSessions (handleLoadMoreChatSessions initialState))"
  by (simp add: loadChatSessions_def loadChatSessionsFrom_def handleLoadMoreChatSessions_def
      initialState_def tenSessions_def CHAT_SESSIONS_PER_PAGE_def)

text \<open>
  C8, amended. A successful load of the session list sets \<open>hasMoreChatSessions\<close> to true
  exactly when the number of rows returned equals the size of the requested range, which
  is the value of the running counter \<open>chatSessionsLoadedCount\<close> that the
  \<open>loadChatSessions\<close> callback captured (10 at first, 10 more after each
  \<open>handleLoadMoreChatSessions\<close>; in the reloads made by \<open>deleteChatSession\<close> and
  \<open>createNewChatSession\<close> it is still the value from before they reset the counter to
  10); a successful load of a message page, the first or an older one, sets
  \<open>hasMoreMessages\<close> to true exactly when the number of rows returned equals the limit
  of the query, 20.
\<close>

theorem has_more_iff_full_page:
  "(user cl = Some u \<longrightarrow>
      select_sessions env (sessionsQuery u (chatSessionsLoadedCount cl)) = Inr sessions \<longrightarrow>
      requestedSize (sessionsQuery u (chatSessionsLoadedCount cl)) = chatSessionsLoadedCount cl \<and>
      hasMoreChatSessions (loadChatSessionsFrom cl env st) =
        (int (length sessions) = chatSessionsLoadedCount cl) \<and>
      hasMoreChatSessions (loadChatSessions env cl) =
        (int (length sessions) = chatSessionsLoadedCount cl) \<and>
      chatSessionsLoadedCount (deleteChatSession env getTime None deleted cl) = 10 \<and>
      hasMoreChatSessions (deleteChatSession env getTime None deleted cl) =
        (int (length sessions) = chatSessionsLoadedCount cl) \<and>
      chatSessionsLoadedCount (runAlone (createNewChatSession cl env (Inr (Some created))) st) = 10 \<and>
      hasMoreChatSessions (runAlone (createNewChatSession cl env (Inr (Some created))) st) =
        (int (length sessions) = chatSessionsLoadedCount cl)) \<and>
   chatSessionsLoadedCount initialState = 10 \<and>
   chatSessionsLoadedCount (handleLoadMoreChatSessions st) = chatSessionsLoadedCount st + 10 \<and>
   (user st \<noteq> None \<longrightarrow> select_messages env (latestQuery sessionId) = Inr rows \<longrightarrow>
      mq_limit (latestQuery sessionId) = 20 \<and>
      hasMoreMessages (loadSessionMessages env now sessionId st) = (length rows = 20)) \<and>
   (user cl \<noteq> None \<longrightarrow> activeChatSessionId cl = Some sessionId \<longrightarrow> sessionId \<noteq> [] \<longrightarrow>
      chatMessages cl = m0 # ms \<longrightarrow>
      select_messages env (olderQuery sessionId (timestamp m0)) = Inr rows \<longrightarrow>
      mq_limit (olderQuery sessionId (timestamp m0)) = 20 \<and>
      hasMoreMessages (handleLoadOlderChatMessagesFrom cl env now st) = (length rows = 20))"
proof -
  have sessions: "hasMoreChatSessions (loadChatSessionsFrom cl env s) =
        (int (length sessions) = chatSessionsLoadedCount cl)"
    if "user cl = Some u"
      and "select_sessions env (sessionsQuery u (chatSessionsLoadedCount cl)) = Inr sessions"
    for s
    using that by (simp add: loadChatSessionsFrom_def)
  have counter: "chatSessionsLoadedCount (loadChatSessionsFrom cl env s) = chatSessionsLoadedCount s"
    for s
    by (simp add: loadChatSessionsFrom_def split: option.splits sum.splits)
  have created: "runAlone (createNewChatSession cl env (Inr (Some created))) st =
      (loadChatSessionsFrom cl env (st\<lparr>chatSessionsLoadedCount := CHAT_SESSIONS_PER_PAGE\<rparr>))
        \<lparr>activeChatSessionId := Some (session_id (formatSession created)),
         chatMessages := [], hasMoreMessages := False\<rparr>"
    if "user cl = Some u"
    using that
    by (simp add: runAlone_def runSteps_def stepsOf_def createNewChatSession_def
        loadChatSessionsRoutine_def andThen_def returns_def setting_def awaiting_def)
  have deleted: "hasMoreChatSessions (deleteChatSession env getTime None deleted cl) =
      hasMoreChatSessions (loadChatSessionsFrom cl env
        (cl\<lparr>chatSessionsLoadedCount := CHAT_SESSIONS_PER_PAGE\<rparr>)) \<and>
    chatSessionsLoadedCount (deleteChatSession env getTime None deleted cl) =
      chatSessionsLoadedCount (loadChatSessionsFrom cl env
        (cl\<lparr>chatSessionsLoadedCount := CHAT_SESSIONS_PER_PAGE\<rparr>))"
    if "user cl = Some u"
    using that by (simp add: deleteChatSession_def Let_def split: list.splits)
  show ?thesis
    using sessions created deleted counter
    by (auto simp: loadChatSessions_def requestedSize_sessionsQuery
      loadSessionMessages_def handleLoadOlderChatMessagesFrom_def latestQuery_def olderQuery_def
      CHAT_MESSAGES_PER_PAGE_def CHAT_SESSIONS_PER_PAGE_def initialState_def
      handleLoadMoreChatSessions_def)
qed

theorem has_more_iff_full_page_witness:
  "user (handleLoadMoreChatSessions initialState) = Some ''u1'' \<and>
   chatSessionsLoadedCount (handleLoadMoreChatSessions initialState) = 20 \<and>
   select_sessions tenSessions
       (sessionsQuery ''u1'' (chatSessionsLoadedCount (handleLoadMoreChatSessions initialState))) =
     Inr (replicate 10 (exampleSessionRow ''s1'')) \<and>
   hasMoreChatSessions (loadChatSessions tenSessions (handleLoadMoreChatSessions initialState)) =
     (int (length (replicate 10 (exampleSessionRow ''s1''))) = 20) \<and>
   hasMoreChatSessions
       (loadChatSessionsFrom (handleLoadMoreChatSessions initialState) tenSessions initialState) =
     (int (length (replicate 10 (exampleSessionRow ''s1''))) = 20) \<and>
   chatSessionsLoadedCount
       (deleteChatSession tenSessions digitsValue None ''s1''
          (handleLoadMoreChatSessions initialState)) = 10 \<and>
   hasMoreChatSessions
       (deleteChatSession tenSessions digitsValue None ''s1''
          (handleLoadMoreChatSessions initialState)) =
     (int (length (replicate 10 (exampleSessionRow ''s1''))) = 20) \<and>
   chatSessionsLoadedCount
       (runAlone (createNewChatSession (handleLoadMoreChatSessions initialState) tenSessions
                    (Inr (Some (exampleSessionRow ''s2''))))
          (handleLoadMoreChatSessions initialState)) = 10 \<and>
   hasMoreChatSessions
       (runAlone (createNewChatSession (handleLoadMoreChatSessions initialState) tenSessions
                    (Inr (Some (exampleSessionRow ''s2''))))
          (handleLoadMoreChatSessions initialState)) =
     (int (length (replicate 10 (exampleSessionRow ''s1''))) = 20) \<and>
   hasMoreMessages (loadSessionMessages pagedRemote ''now'' ''s1'' initialState) =
     (length [exampleRow ''m3'' ''2024-01-01T10:00:03Z'', exampleRow ''m2'' ''2024-01-01T10:00:02Z''] = 20) \<and>
   hasMoreMessages (handleLoadOlderChatMessagesFrom
       (initialState\<lparr>activeChatSessionId := Some ''s1'',
          chatMessages := [formatMessage ''now'' (exampleRow ''m2'' ''2024-01-01T10:00:02Z'')]\<rparr>)
       pagedRemote ''now''
       (initialState\<lparr>activeChatSessionId := Some ''s1'',
          chatMessages := [formatMessage ''now'' (exampleRow ''m2'' ''2024-01-01T10:00:02Z'')]\<rparr>)) =
     (length [exampleRow ''m1'' ''2024-01-01T10:00:01Z''] = 20)"
proof -
  let ?st = "handleLoadMoreChatSessions initialState"
  let ?st2 = "initialState\<lparr>activeChatSessionId := Some ''s1'',
          chatMessages := [formatMessage ''now'' (exampleRow ''m2'' ''2024-01-01T10:00:02Z'')]\<rparr>"
  have u: "user ?st = Some ''u1''"
    by (simp add: handleLoadMoreChatSessions_def initialState_def)
  have n: "chatSessionsLoadedCount ?st = 20"
    by (simp add: handleLoadMoreChatSessions_def initialState_def CHAT_SESSIONS_PER_PAGE_def)
  have s: "select_sessions tenSessions (sessionsQuery ''u1'' (chatSessionsLoadedCount ?st))
           = Inr (replicate 10 (exampleSessionRow ''s1''))"
    by (simp add: tenSessions_def)
  note A = has_more_iff_full_page [of ?st "''u1''" tenSessions
      "replicate 10 (exampleSessionRow ''s1'')" initialState digitsValue "''s1''"
      "exampleSessionRow ''s2''" "''s1''" "[]" "''now''" undefined "[]",
      THEN conjunct1, rule_format, OF u s]
  note B = has_more_iff_full_page [of ?st "''u1''" tenSessions
      "replicate 10 (exampleSessionRow ''s1'')" ?st digitsValue "''s1''"
      "exampleSessionRow ''s2''" "''s1''" "[]" "''now''" undefined "[]",
      THEN conjunct1, rule_format, OF u s]
  have u0: "user initialState \<noteq> None" by (simp add: initialState_def)
  have p: "select_messages pagedRemote (latestQuery ''s1'') =
      Inr [exampleRow ''m3'' ''2024-01-01T10:00:03Z'', exampleRow ''m2'' ''2024-01-01T10:00:02Z'']"
    by (simp add: pagedRemote_def latestQuery_def)
  have b: "hasMoreMessages (loadSessionMessages pagedRemote ''now'' ''s1'' initialState) =
     (length [exampleRow ''m3'' ''2024-01-01T10:00:03Z'', exampleRow ''m2'' ''2024-01-01T10:00:02Z''] = 20)"
    using has_more_iff_full_page [of initialState "''u1''" pagedRemote "[]" initialState
        digitsValue "''s1''" "exampleSessionRow ''s2''" "''s1''"
        "[exampleRow ''m3'' ''2024-01-01T10:00:03Z'', exampleRow ''m2'' ''2024-01-01T10:00:02Z'']"
        "''now''" undefined "[]"] u0 p
    by simp
  have u2: "user ?st2 \<noteq> None" by (simp add: initialState_def)
  have a2: "activeChatSessionId ?st2 = Some ''s1''" by simp
  have c2: "chatMessages ?st2 = formatMessage ''now'' (exampleRow ''m2'' ''2024-01-01T10:00:02Z'') # []" by simp
  have t2: "timestamp (formatMessage ''now'' (exampleRow ''m2'' ''2024-01-01T10:00:02Z'')) = ''2024-01-01T10:00:02Z''"
    by (simp add: formatMessage_def exampleRow_def or_else_def)
  have p2: "select_messages pagedRemote
      (olderQuery ''s1'' (timestamp (formatMessage ''now'' (exampleRow ''m2'' ''2024-01-01T10:00:02Z'')))) =
      Inr [exampleRow ''m1'' ''2024-01-01T10:00:01Z'']"
    by (simp add: t2) (simp add: pagedRemote_def olderQuery_def)
  have c: "hasMoreMessages (handleLoadOlderChatMessagesFrom ?st2 pagedRemote ''now'' ?st2) =
     (length [exampleRow ''m1'' ''2024-01-01T10:00:01Z''] = 20)"
    using has_more_iff_full_page [of ?st2 "''u1''" pagedRemote "[]" ?st2 digitsValue "''s1''"
        "exampleSessionRow ''s2''" "''s1''"
        "[exampleRow ''m1'' ''2024-01-01T10:00:01Z'']" "''now''"
        "formatMessage ''now'' (exampleRow ''m2'' ''2024-01-01T10:00:02Z'')" "[]"]
      u2 a2 c2 p2
    by simp
  from u n s A B b c show ?thesis by (simp add: requestedSize_sessionsQuery)
qed

subsection \<open>Deleting the only session\<close>

text \<open>
  C7. A successful \<open>deleteChatSession\<close> of the active session, when the local session
  list holds no other session (at most one entry), leaves \<open>activeChatSessionId\<close> null,
  the message buffer empty and \<open>hasMoreMessages\<close> false.
\<close>

theorem delete_only_active_session:
  assumes "user st \<noteq> None"
    and "activeChatSessionId st = Some sessionId"
    and "length (chatSessions st) \<le> 1"
  shows "activeChatSessionId (deleteChatSession env getTime None sessionId st) = None \<and>
         chatMessages (deleteChatSession env getTime None sessionId st) = [] \<and>
         hasMoreMessages (deleteChatSession env getTime None sessionId st) = False"
  using assms by (auto simp: deleteChatSession_def Let_def)

theorem delete_only_active_session_witness:
  "user (initialState\<lparr>chatSessions := [formatSession (exampleSessionRow ''s1'')],
            activeChatSessionId := Some ''s1'',
            chatMessages := [exampleMessage ''m1'' ''user'' ''hi'']\<rparr>) \<noteq> None \<and>
   activeChatSessionId (deleteChatSession pagedRemote digitsValue None ''s1''
       (initialState\<lparr>chatSessions := [formatSession (exampleSessionRow ''s1'')],
            activeChatSessionId := Some ''s1'',
            chatMessages := [exampleMessage ''m1'' ''user'' ''hi'']\<rparr>)) = None \<and>
   chatMessages (deleteChatSession pagedRemote digitsValue None ''s1''
       (initialState\<lparr>chatSessions := [formatSession (exampleSessionRow ''s1'')],
            activeChatSessionId := Some ''s1'',
            chatMessages := [exampleMessage ''m1'' ''user'' ''hi'']\<rparr>)) = [] \<and>
   \<not> hasMoreMessages (deleteChatSession pagedRemote digitsValue None ''s1''
       (initialState\<lparr>chatSessions := [formatSession (exampleSessionRow ''s1'')],
            activeChatSessionId := Some ''s1'',
            chatMessages := [exampleMessage ''m1'' ''user'' ''hi'']\<rparr>))"
proof -
  let ?st = "initialState\<lparr>chatSessions := [formatSession (exampleSessionRow ''s1'')],
            activeChatSessionId := Some ''s1'',
            chatMessages := [exampleMessage ''m1'' ''user'' ''hi'']\<rparr>"
  have u: "user ?st \<noteq> None" by (simp add: initialState_def)
  have a: "activeChatSessionId ?st = Some ''s1''" by simp
  have l: "length (chatSessions ?st) \<le> 1" by simp
  from delete_only_active_session [OF u a l, of pagedRemote digitsValue] u show ?thesis by simp
qed

subsection \<open>Loading a session's messages, then older pages\<close>

lemma timestamp_formatMessage: "stamped r \<Longrightarrow> timestamp (formatMessage now r) = stamp r"
  by (auto simp: formatMessage_def stamped_def stamp_def truthy_def or_else_def split: option.splits)

lemma message_id_formatMessage: "message_id (formatMessage now r) = row_id r"
  by (simp add: formatMessage_def)

lemma times_of_page:
  "list_all stamped rows \<Longrightarrow>
   map (\<lambda>m. timeOf (timestamp m)) (map (formatMessage now) rows) = map (\<lambda>r. timeOf (stamp r)) rows"
  by (induction rows) (simp_all add: timestamp_formatMessage)

lemma ids_of_page: "map message_id (map (formatMessage now) rows) = map row_id rows"
  by (simp add: message_id_formatMessage)

lemma distinct_ids_of_page:
  assumes "distinct (map row_id tbl)" and "distinct rows" and "set rows \<subseteq> set tbl"
  shows "distinct (map row_id rows)"
proof -
  from assms(1) have "inj_on row_id (set tbl)" by (simp add: distinct_map)
  with assms(3) have "inj_on row_id (set rows)" by (meson inj_on_subset)
  with assms(2) show ?thesis by (simp add: distinct_map)
qed

lemma page_bufferOk:
  assumes "distinct (map row_id tbl)" and "pageOk timeOf tbl q rows"
  shows "bufferOk timeOf tbl (rev (map (formatMessage now) rows))"
proof -
  from assms(2) have d: "distinct rows" and s: "set rows \<subseteq> set tbl"
    and st: "list_all stamped rows"
    and so: "sorted (rev (map (\<lambda>r. timeOf (stamp r)) rows))"
    by (simp_all add: pageOk_def)
  have "map (\<lambda>m. timeOf (timestamp m)) (rev (map (formatMessage now) rows)) =
        rev (map (\<lambda>r. timeOf (stamp r)) rows)"
    by (simp only: rev_map [symmetric] times_of_page [OF st])
  with so have 1: "sorted (map (\<lambda>m. timeOf (timestamp m)) (rev (map (formatMessage now) rows)))"
    by simp
  have "map message_id (rev (map (formatMessage now) rows)) = rev (map row_id rows)"
    by (simp only: rev_map [symmetric] ids_of_page)
  with distinct_ids_of_page [OF assms(1) d s]
  have 2: "distinct (map message_id (rev (map (formatMessage now) rows)))"
    by simp
  have 3: "\<forall>m\<in>set (rev (map (formatMessage now) rows)).
             \<exists>r\<in>set tbl. stamped r \<and> row_id r = message_id m \<and> stamp r = timestamp m"
    using s st by (auto simp: list_all_iff timestamp_formatMessage message_id_formatMessage)
  from 1 2 3 show ?thesis by (simp add: bufferOk_def)
qed

lemma prepend_bufferOk:
  assumes key: "distinct (map row_id tbl)"
    and buf: "bufferOk timeOf tbl (m0 # ms)"
    and page: "pageOk timeOf tbl (olderQuery sid (timestamp m0)) rows"
  shows "bufferOk timeOf tbl (rev (map (formatMessage now) rows) @ m0 # ms)"
proof -
  let ?new = "rev (map (formatMessage now) rows)"
  from page_bufferOk [OF key page] have new: "bufferOk timeOf tbl ?new" .
  from page have older: "\<forall>r\<in>set rows. timeOf (stamp r) < timeOf (timestamp m0)"
    and st: "list_all stamped rows" and sub: "set rows \<subseteq> set tbl"
    by (simp_all add: pageOk_def olderQuery_def list_all_iff)
  from buf have least: "\<forall>m\<in>set (m0 # ms). timeOf (timestamp m0) \<le> timeOf (timestamp m)"
    by (auto simp: bufferOk_def)
  have newer: "\<forall>x\<in>set ?new. timeOf (timestamp x) < timeOf (timestamp m0)"
    using older st by (auto simp: list_all_iff timestamp_formatMessage)
  have 1: "sorted (map (\<lambda>m. timeOf (timestamp m)) (?new @ m0 # ms))"
  proof -
    have "\<forall>x\<in>set ?new. \<forall>y\<in>set (m0 # ms). timeOf (timestamp x) \<le> timeOf (timestamp y)"
      using newer least by fastforce
    with new buf show ?thesis
      unfolding bufferOk_def map_append sorted_append by auto
  qed
  have inj: "inj_on row_id (set tbl)" using key by (simp add: distinct_map)
  have disj: "message_id x \<noteq> message_id y" if x: "x \<in> set ?new" and y: "y \<in> set (m0 # ms)" for x y
  proof
    assume eq: "message_id x = message_id y"
    from x obtain r where r: "r \<in> set rows" and xr: "x = formatMessage now r" by auto
    from y buf obtain r' where r': "r' \<in> set tbl" "stamped r'" "row_id r' = message_id y"
        "stamp r' = timestamp y"
      unfolding bufferOk_def by blast
    from r sub have "r \<in> set tbl" by auto
    moreover have "row_id r = row_id r'" using eq xr r'(3) by (simp add: message_id_formatMessage)
    ultimately have "r = r'" using inj r'(1) by (auto dest: inj_onD)
    with r older r'(4) have "timeOf (timestamp y) < timeOf (timestamp m0)" by auto
    with least y show False by fastforce
  qed
  have 2: "distinct (map message_id (?new @ m0 # ms))"
  proof -
    have "set (map message_id ?new) \<inter> set (map message_id (m0 # ms)) = {}"
      using disj by fastforce
    with new buf show ?thesis
      unfolding bufferOk_def map_append distinct_append by blast
  qed
  have 3: "\<forall>m\<in>set (?new @ m0 # ms).
             \<exists>r\<in>set tbl. stamped r \<and> row_id r = message_id m \<and> stamp r = timestamp m"
    using new buf unfolding bufferOk_def by auto
  from 1 2 3 show ?thesis unfolding bufferOk_def by blast
qed

lemma handleLoadOlder_bufferOk:
  assumes "distinct (map row_id tbl)" and "readsOk timeOf tbl env"
    and "bufferOk timeOf tbl (chatMessages st)"
  shows "bufferOk timeOf tbl (chatMessages (handleLoadOlderChatMessages env now st))"
proof -
  have step: "bufferOk timeOf tbl (rev (map (formatMessage now) rows) @ m0 # ms)"
    if "chatMessages st = m0 # ms" and "select_messages env (olderQuery sid (timestamp m0)) = Inr rows"
    for m0 ms sid rows
  proof -
    from that(2) assms(2) have "pageOk timeOf tbl (olderQuery sid (timestamp m0)) rows"
      by (simp add: readsOk_def)
    with assms(1,3) that(1) show ?thesis by (simp add: prepend_bufferOk)
  qed
  show ?thesis
    using assms(3) step
    by (auto simp: handleLoadOlderChatMessages_def handleLoadOlderChatMessagesFrom_def
        split: option.splits list.splits sum.splits)
qed

lemma loadOlderRepeatedly_bufferOk:
  assumes "distinct (map row_id tbl)" and "readsOk timeOf tbl env"
  shows "bufferOk timeOf tbl (chatMessages st) \<Longrightarrow>
         bufferOk timeOf tbl (chatMessages (loadOlderRepeatedly env nows st))"
proof (induction nows arbitrary: st)
  case Nil
  then show ?case by simp
next
  case (Cons now nows)
  from handleLoadOlder_bufferOk [OF assms Cons.prems]
  show ?case by (simp add: Cons.IH)
qed

lemma loadSessionMessages_bufferOk:
  assumes "distinct (map row_id tbl)" and "readsOk timeOf tbl env" and "user st \<noteq> None"
  shows "bufferOk timeOf tbl (chatMessages (loadSessionMessages env now sessionId st))"
proof (cases "select_messages env (latestQuery sessionId)")
  case (Inl e)
  with assms(3) show ?thesis by (auto simp: loadSessionMessages_def bufferOk_def)
next
  case (Inr rows)
  with assms(2) have "pageOk timeOf tbl (latestQuery sessionId) rows"
    by (simp add: readsOk_def)
  from page_bufferOk [OF assms(1) this] Inr assms(3) show ?thesis
    by (auto simp: loadSessionMessages_def)
qed

lemma digitsValue_examples:
  "digitsValue ''2024-01-01T10:00:01Z'' = 20240101100001"
  "digitsValue ''2024-01-01T10:00:02Z'' = 20240101100002"
  "digitsValue ''2024-01-01T10:00:03Z'' = 20240101100003"
  by (simp_all add: digitsValue_def)

lemma readsOk_pagedRemote: "readsOk digitsValue threeMessages pagedRemote"
  by (auto simp: readsOk_def pagedRemote_def pageOk_def threeMessages_def exampleRow_def
      stamped_def stamp_def truthy_def or_else_def digitsValue_examples
      split: if_splits option.splits)

text \<open>
  C1 as stated fails: nothing keeps a \<open>handleLoadOlderChatMessages\<close> call from starting
  while another is in flight. Two calls started in the same render ask for the page
  before the same oldest message, and each puts its answer in front of the buffer: the
  page is there twice, although every read is as the claim supposes.
\<close>

theorem overlapping_loads_duplicate_page:
  "distinct (map row_id threeMessages) \<and>
   readsOk digitsValue threeMessages pagedRemote \<and>
   user (initialState\<lparr>activeChatSessionId := Some ''s1''\<rparr>) \<noteq> None \<and>
   map message_id (chatMessages
     (handleLoadOlderChatMessagesFrom
        (loadSessionMessages pagedRemote ''n0'' ''s1''
           (initialState\<lparr>activeChatSessionId := Some ''s1''\<rparr>))
        pagedRemote ''n2''
        (handleLoadOlderChatMessagesFrom
           (loadSessionMessages pagedRemote ''n0'' ''s1''
              (initialState\<lparr>activeChatSessionId := Some ''s1''\<rparr>))
           pagedRemote ''n1''
           (loadSessionMessages pagedRemote ''n0'' ''s1''
              (initialState\<lparr>activeChatSessionId := Some ''s1''\<rparr>))))) =
     [''m1'', ''m1'', ''m2'', ''m3''] \<and>
   \<not> distinct (map message_id (chatMessages
     (handleLoadOlderChatMessagesFrom
        (loadSessionMessages pagedRemote ''n0'' ''s1''
           (initialState\<lparr>activeChatSessionId := Some ''s1''\<rparr>))
        pagedRemote ''n2''
        (handleLoadOlderChatMessagesFrom
           (loadSessionMessages pagedRemote ''n0'' ''s1''
              (initialState\<lparr>activeChatSessionId := Some ''s1''\<rparr>))
           pagedRemote ''n1''
           (loadSessionMessages pagedRemote ''n0'' ''s1''
              (initialState\<lparr>activeChatSessionId := Some ''s1''\<rparr>))))))"
proof -
  have k: "distinct (map row_id threeMessages)"
    by (simp add: threeMessages_def exampleRow_def)
  have u: "user (initialState\<lparr>activeChatSessionId := Some ''s1''\<rparr>) \<noteq> None"
    by (simp add: initialState_def)
  have e: "map message_id (chatMessages
     (handleLoadOlderChatMessagesFrom
        (loadSessionMessages pagedRemote ''n0'' ''s1''
           (initialState\<lparr>activeChatSessionId := Some ''s1''\<rparr>))
        pagedRemote ''n2''
        (handleLoadOlderChatMessagesFrom
           (loadSessionMessages pagedRemote ''n0'' ''s1''
              (initialState\<lparr>activeChatSessionId := Some ''s1''\<rparr>))
           pagedRemote ''n1''
           (loadSessionMessages pagedRemote ''n0'' ''s1''
              (initialState\<lparr>activeChatSessionId := Some ''s1''\<rparr>))))) =
     [''m1'', ''m1'', ''m2'', ''m3'']"
    by (simp add: loadSessionMessages_def handleLoadOlderChatMessagesFrom_def pagedRemote_def
        latestQuery_def olderQuery_def initialState_def formatMessage_def exampleRow_def
        or_else_def)
  from k readsOk_pagedRemote u e show ?thesis by simp
qed

text \<open>
  C1, amended. For a signed-in user and every session, the message buffer produced by
  \<open>loadSessionMessages\<close> followed by any number of \<open>handleLoadOlderChatMessages\<close>
  calls made in turn (each starts in the render that shows what the one before has left,
  so that no two are in flight together) is in non-decreasing timestamp order and holds
  no message identifier twice, given that every read returns rows of the table (whose
  key is the identifier), each once, each carrying a timestamp, newest first, and that a
  read for older messages returns only rows strictly older than the oldest loaded
  timestamp.
\<close>

theorem loaded_messages_chronological_distinct:
  assumes "distinct (map row_id tbl)"
    and "readsOk timeOf tbl env"
    and "user st \<noteq> None"
  shows "sorted (map (\<lambda>m. timeOf (timestamp m))
           (chatMessages (loadOlderRepeatedly env nows (loadSessionMessages env now sessionId st)))) \<and>
         distinct (map message_id
           (chatMessages (loadOlderRepeatedly env nows (loadSessionMessages env now sessionId st))))"
  using loadOlderRepeatedly_bufferOk [OF assms(1,2) loadSessionMessages_bufferOk [OF assms]]
  by (simp add: bufferOk_def)

theorem loaded_messages_chronological_distinct_witness:
  "distinct (map row_id threeMessages) \<and>
   readsOk digitsValue threeMessages pagedRemote \<and>
   user (initialState\<lparr>activeChatSessionId := Some ''s1''\<rparr>) \<noteq> None \<and>
   map message_id (chatMessages (loadOlderRepeatedly pagedRemote [''n1'', ''n2'']
      (loadSessionMessages pagedRemote ''n0'' ''s1''
         (initialState\<lparr>activeChatSessionId := Some ''s1''\<rparr>)))) = [''m1'', ''m2'', ''m3''] \<and>
   sorted (map (\<lambda>m. digitsValue (timestamp m))
     (chatMessages (loadOlderRepeatedly pagedRemote [''n1'', ''n2'']
        (loadSessionMessages pagedRemote ''n0'' ''s1''
           (initialState\<lparr>activeChatSessionId := Some ''s1''\<rparr>))))) \<and>
   distinct (map message_id
     (chatMessages (loadOlderRepeatedly pagedRemote [''n1'', ''n2'']
        (loadSessionMessages pagedRemote ''n0'' ''s1''
           (initialState\<lparr>activeChatSessionId := Some ''s1''\<rparr>)))))"
proof -
  let ?st = "initialState\<lparr>activeChatSessionId := Some ''s1''\<rparr>"
  have k: "distinct (map row_id threeMessages)"
    by (simp add: threeMessages_def exampleRow_def)
  have u: "user ?st \<noteq> None" by (simp add: initialState_def)
  have e: "map message_id (chatMessages (loadOlderRepeatedly pagedRemote [''n1'', ''n2'']
      (loadSessionMessages pagedRemote ''n0'' ''s1'' ?st))) = [''m1'', ''m2'', ''m3'']"
    by (simp add: loadSessionMessages_def handleLoadOlderChatMessages_def
        handleLoadOlderChatMessagesFrom_def pagedRemote_def
        latestQuery_def olderQuery_def initialState_def formatMessage_def exampleRow_def
        or_else_def)
  from loaded_messages_chronological_distinct [OF k readsOk_pagedRemote u,
      of "[''n1'', ''n2'']" "''n0''" "''s1''"] k readsOk_pagedRemote u e
  show ?thesis by simp
qed

subsection \<open>The context builder\<close>

lemma foldl_append_entries: "foldl (\<lambda>context x. context @ f x) acc xs = acc @ concat (map f xs)"
  by (induction xs arbitrary: acc) simp_all

lemma buildRichContext_sections:
  "buildRichContext dIds nIds docs nts =
     (if selectedDocs dIds docs = [] then []
      else ''DOCUMENTS:\<newline>'' @ concat (map documentEntry (selectedDocs dIds docs))) @
     (if selectedNotes nIds nts = [] then []
      else ''NOTES:\<newline>'' @ concat (map noteEntry (selectedNotes nIds nts)))"
  by (simp add: buildRichContext_def foldl_append_entries)

lemma length_truncateTo: "length (truncateTo n s) \<le> n + length ''...''"
  by (simp add: truncateTo_def)

lemma truncateTo_long: "n < length s \<Longrightarrow> truncateTo n s = take n s @ ''...''"
  by (simp add: truncateTo_def)

lemma truncateTo_short: "length s \<le> n \<Longrightarrow> truncateTo n s = s"
  by (simp add: truncateTo_def)

text \<open>
  C4. For every input to \<open>buildRichContext\<close>, the output is made of one entry per selected
  document and note; the extracted content included for a document is at most 2000
  characters plus the marker \<open>...\<close> (text longer than 2000 characters is cut to exactly
  its first 2000 characters followed by the marker, shorter text is included as it is),
  and the content included for a note is bounded in the same way by 1500 characters.
\<close>

theorem context_content_fields_bounded:
  "buildRichContext dIds nIds docs nts =
     (if selectedDocs dIds docs = [] then []
      else ''DOCUMENTS:\<newline>'' @ concat (map documentEntry (selectedDocs dIds docs))) @
     (if selectedNotes nIds nts = [] then []
      else ''NOTES:\<newline>'' @ concat (map noteEntry (selectedNotes nIds nts))) \<and>
   (\<forall>doc\<in>set (selectedDocs dIds docs). \<forall>c. content_extracted doc = Some c \<longrightarrow> c \<noteq> [] \<longrightarrow>
      documentEntry doc =
        documentHeader doc @ contentLabel doc @ documentContent c @ ''\<newline>'' @ ''\<newline>'' \<and>
      length (documentContent c) \<le> 2000 + length ''...'' \<and>
      (2000 < length c \<longrightarrow> documentContent c = take 2000 c @ ''...'') \<and>
      (length c \<le> 2000 \<longrightarrow> documentContent c = c)) \<and>
   (\<forall>n\<in>set (selectedNotes nIds nts). \<forall>c. note_content n = Some c \<longrightarrow> c \<noteq> [] \<longrightarrow>
      noteEntry n =
        noteHeader n @ ''Content: '' @ noteContent c @ ''\<newline>'' @ noteTrailer n @ ''\<newline>'' \<and>
      length (noteContent c) \<le> 1500 + length ''...'' \<and>
      (1500 < length c \<longrightarrow> noteContent c = take 1500 c @ ''...'') \<and>
      (length c \<le> 1500 \<longrightarrow> noteContent c = c))"
proof (intro conjI ballI allI impI)
  show "buildRichContext dIds nIds docs nts =
     (if selectedDocs dIds docs = [] then []
      else ''DOCUMENTS:\<newline>'' @ concat (map documentEntry (selectedDocs dIds docs))) @
     (if selectedNotes nIds nts = [] then []
      else ''NOTES:\<newline>'' @ concat (map noteEntry (selectedNotes nIds nts)))"
    by (rule buildRichContext_sections)
qed (simp_all add: documentEntry_def documentContentLine_def documentContent_def
      noteEntry_def noteContentLine_def noteContent_def truncateTo_def)

theorem context_content_fields_bounded_witness:
  "exampleDocument ''d1'' (replicate 2001 CHR ''x'') \<in>
     set (selectedDocs (Some [''d1'']) (Some [exampleDocument ''d1'' (replicate 2001 CHR ''x'')])) \<and>
   2000 < length (replicate 2001 CHR ''x'') \<and>
   documentContent (replicate 2001 CHR ''x'') = replicate 2000 CHR ''x'' @ ''...'' \<and>
   length (documentContent (replicate 2001 CHR ''x'')) \<le> 2003 \<and>
   exampleNote ''n1'' ''text'' \<in> set (selectedNotes (Some [''n1'']) (Some [exampleNote ''n1'' ''text''])) \<and>
   noteContent ''text'' = ''text''"
proof -
  let ?c = "replicate 2001 CHR ''x''"
  let ?d = "exampleDocument ''d1'' ?c"
  let ?n = "exampleNote ''n1'' ''text''"
  note T = context_content_fields_bounded [of "Some [''d1'']" "Some [''n1'']" "Some [?d]" "Some [?n]"]
  have m: "?d \<in> set (selectedDocs (Some [''d1'']) (Some [?d]))"
    by (simp add: selectedDocs_def or_empty_def exampleDocument_def)
  have c: "content_extracted ?d = Some ?c" by (simp add: exampleDocument_def)
  have ne: "?c \<noteq> []" by simp
  have l: "2000 < length ?c" by simp
  note D = T [THEN conjunct2, THEN conjunct1, rule_format, OF m c ne]
  have d1: "documentContent ?c = replicate 2000 CHR ''x'' @ ''...''"
    using D l by simp
  have d2: "length (documentContent ?c) \<le> 2003" using D by simp
  have mn: "?n \<in> set (selectedNotes (Some [''n1'']) (Some [?n]))"
    by (simp add: selectedNotes_def or_empty_def exampleNote_def)
  have cn: "note_content ?n = Some ''text''" by (simp add: exampleNote_def)
  note N = T [THEN conjunct2, THEN conjunct2, rule_format, OF mn cn]
  have n1: "noteContent ''text'' = ''text''" using N by simp
  from m l d1 d2 mn n1 show ?thesis by simp
qed

subsection \<open>The context builder leaves the store as it finds it\<close>

lemma cellAt_append:
  "cellAt (st\<lparr>cells := cells st @ new\<rparr>) r =
     (if r < length (cells st) then cellAt st r
      else if r < length (cells st) + length new then Some (new ! (r - length (cells st)))
      else None)"
  by (simp add: cellAt_def nth_append)

lemma cellAt_Some_append:
  "cellAt st r = Some c \<Longrightarrow> cellAt (st\<lparr>cells := cells st @ new\<rparr>) r = Some c"
  by (simp add: cellAt_def nth_append split: if_splits)

lemma stringsAt_append:
  "stringsAt st v = Some xs \<Longrightarrow> stringsAt (st\<lparr>cells := cells st @ new\<rparr>) v = Some xs"
  by (auto simp: stringsAt_def cellAt_Some_append split: option.splits cell.splits)

lemma refsAt_append:
  "refsAt st v = Some rs \<Longrightarrow> refsAt (st\<lparr>cells := cells st @ new\<rparr>) v = Some rs"
  by (auto simp: refsAt_def cellAt_Some_append split: option.splits cell.splits)

lemma documentAt_append:
  "documentAt st r = Some doc \<Longrightarrow> documentAt (st\<lparr>cells := cells st @ new\<rparr>) r = Some doc"
  by (auto simp: documentAt_def cellAt_Some_append split: option.splits cell.splits)

lemma noteAt_append:
  "noteAt st r = Some n \<Longrightarrow> noteAt (st\<lparr>cells := cells st @ new\<rparr>) r = Some n"
  by (auto simp: noteAt_def cellAt_Some_append split: option.splits cell.splits)

lemma those_map_mono:
  assumes "those (map f rs) = Some xs" and "\<And>r x. f r = Some x \<Longrightarrow> g r = Some x"
  shows "those (map g rs) = Some xs"
  using assms(1)
proof (induction rs arbitrary: xs)
  case Nil
  then show ?case by simp
next
  case (Cons r rs)
  then show ?case by (auto split: option.splits dest: assms(2))
qed

lemma documentsAt_append:
  "documentsAt st v = Some docs \<Longrightarrow> documentsAt (st\<lparr>cells := cells st @ new\<rparr>) v = Some docs"
  by (auto simp: documentsAt_def refsAt_append documentAt_append
      split: bind_splits elim!: those_map_mono)

lemma notesAt_append:
  "notesAt st v = Some nts \<Longrightarrow> notesAt (st\<lparr>cells := cells st @ new\<rparr>) v = Some nts"
  by (auto simp: notesAt_def refsAt_append noteAt_append
      split: bind_splits elim!: those_map_mono)

lemma those_map_filter:
  "those (map f rs) = Some xs \<Longrightarrow>
   those (map f (map fst (filter (\<lambda>(r, x). P x) (zip rs xs)))) = Some (filter P xs)"
proof (induction rs arbitrary: xs)
  case Nil
  then show ?case by simp
next
  case (Cons r rs)
  then show ?case by (auto split: option.splits)
qed

lemma refsAt_new:
  "refsAt (st\<lparr>cells := cells st @ [ObjectArray rs]\<rparr>) (Some (length (cells st))) = Some rs"
  by (simp add: refsAt_def cellAt_def)

lemma contextOf_filtered:
  "contextOf (filter (\<lambda>doc. doc_id doc \<in> set dIds) docs)
     (filter (\<lambda>n. note_id n \<in> set nIds) nts) =
   buildRichContext (Some dIds) (Some nIds) (Some docs) (Some nts)"
  by (simp add: contextOf_def buildRichContext_def selectedDocs_def selectedNotes_def or_empty_def)

lemma cellAt_console: "cellAt (st\<lparr>console := c\<rparr>) = cellAt st"
  by (rule ext) (simp add: cellAt_def)

lemma reads_console:
  "stringsAt (st\<lparr>console := c\<rparr>) v = stringsAt st v"
  "documentsAt (st\<lparr>console := c\<rparr>) v = documentsAt st v"
  "notesAt (st\<lparr>console := c\<rparr>) v = notesAt st v"
proof -
  have "documentAt (st\<lparr>console := c\<rparr>) = documentAt st" "noteAt (st\<lparr>console := c\<rparr>) = noteAt st"
    "refsAt (st\<lparr>console := c\<rparr>) = refsAt st"
    by (simp_all add: fun_eq_iff documentAt_def noteAt_def refsAt_def cellAt_console
        split: option.splits)
  then show "documentsAt (st\<lparr>console := c\<rparr>) v = documentsAt st v"
    "notesAt (st\<lparr>console := c\<rparr>) v = notesAt st v"
    by (simp_all add: documentsAt_def notesAt_def)
  show "stringsAt (st\<lparr>console := c\<rparr>) v = stringsAt st v"
    by (simp add: stringsAt_def cellAt_console split: option.splits)
qed

lemma buildRichContextIn_refines:
  assumes dI: "stringsAt st dI = Some dIds" and nI: "stringsAt st nI = Some nIds"
    and aD: "documentsAt st aD = Some docs" and aN: "notesAt st aN = Some nts"
  shows "\<exists>selD selN.
           buildRichContextIn dI nI aD aN st =
             Some (buildRichContext (Some dIds) (Some nIds) (Some docs) (Some nts),
                   st\<lparr>cells := cells st @ [ObjectArray selD, ObjectArray selN],
                      console := console st @
                        [''Generated Context: '' @
                         buildRichContext (Some dIds) (Some nIds) (Some docs) (Some nts)]\<rparr>)"
proof -
  from aD obtain dRefs where dRefs: "refsAt st aD = Some dRefs"
    and dObjs: "those (map (documentAt st) dRefs) = Some docs"
    by (auto simp: documentsAt_def split: bind_splits)
  from aN obtain nRefs where nRefs: "refsAt st aN = Some nRefs"
    and nObjs: "those (map (noteAt st) nRefs) = Some nts"
    by (auto simp: notesAt_def split: bind_splits)
  let ?selD = "map fst (filter (\<lambda>(r, doc). doc_id doc \<in> set dIds) (zip dRefs docs))"
  let ?selN = "map fst (filter (\<lambda>(r, n). note_id n \<in> set nIds) (zip nRefs nts))"
  let ?st1 = "st\<lparr>cells := cells st @ [ObjectArray ?selD]\<rparr>"
  let ?st2 = "?st1\<lparr>cells := cells ?st1 @ [ObjectArray ?selN]\<rparr>"
  have 1: "filterDocuments aD dI st = Some (length (cells st), ?st1)"
    by (simp add: filterDocuments_def dRefs dObjs dI allocate_def)
  have nRefs1: "refsAt ?st1 aN = Some nRefs" by (rule refsAt_append [OF nRefs])
  have nObjs1: "those (map (noteAt ?st1) nRefs) = Some nts"
    by (rule those_map_mono [OF nObjs]) (rule noteAt_append)
  have nI1: "stringsAt ?st1 nI = Some nIds" by (rule stringsAt_append [OF nI])
  have 2: "filterNotes aN nI ?st1 = Some (length (cells ?st1), ?st2)"
    by (simp only: filterNotes_def nRefs1 nObjs1 nI1 allocate_def bind.simps)
  have selD: "those (map (documentAt st) ?selD) = Some (filter (\<lambda>doc. doc_id doc \<in> set dIds) docs)"
    by (rule those_map_filter [OF dObjs])
  have selN: "those (map (noteAt st) ?selN) = Some (filter (\<lambda>n. note_id n \<in> set nIds) nts)"
    by (rule those_map_filter [OF nObjs])
  have st2: "?st2 = st\<lparr>cells := cells st @ [ObjectArray ?selD, ObjectArray ?selN]\<rparr>"
    by simp
  let ?st2' = "st\<lparr>cells := cells st @ [ObjectArray ?selD, ObjectArray ?selN]\<rparr>"
  have selD2: "those (map (documentAt ?st2') ?selD) =
                 Some (filter (\<lambda>doc. doc_id doc \<in> set dIds) docs)"
    by (rule those_map_mono [OF selD documentAt_append])
  have selN2: "those (map (noteAt ?st2') ?selN) = Some (filter (\<lambda>n. note_id n \<in> set nIds) nts)"
    by (rule those_map_mono [OF selN noteAt_append])
  have refsD: "refsAt ?st2' (Some (length (cells st))) = Some ?selD"
    by (simp add: refsAt_def cellAt_def nth_append)
  have refsN: "refsAt ?st2' (Some (length (cells ?st1))) = Some ?selN"
    by (simp add: refsAt_def cellAt_def nth_append)
  have 3: "documentsAt ?st2 (Some (length (cells st))) =
             Some (filter (\<lambda>doc. doc_id doc \<in> set dIds) docs)"
    unfolding st2 by (simp only: documentsAt_def refsD bind.simps selD2)
  have 4: "notesAt ?st2 (Some (length (cells ?st1))) =
             Some (filter (\<lambda>n. note_id n \<in> set nIds) nts)"
    unfolding st2 by (simp only: notesAt_def refsN bind.simps selN2)
  have "buildRichContextIn dI nI aD aN st =
          Some (contextOf (filter (\<lambda>doc. doc_id doc \<in> set dIds) docs)
                  (filter (\<lambda>n. note_id n \<in> set nIds) nts),
                ?st2\<lparr>console := console ?st2 @
                   [''Generated Context: '' @
                    contextOf (filter (\<lambda>doc. doc_id doc \<in> set dIds) docs)
                      (filter (\<lambda>n. note_id n \<in> set nIds) nts)]\<rparr>)"
    unfolding buildRichContextIn_def
    by (simp only: 1 2 3 4 bind.simps prod.case Let_def)
  then show ?thesis
    unfolding contextOf_filtered st2 by (intro exI) simp
qed

text \<open>
  C9. \<open>buildRichContext\<close> is deterministic and pure. Two calls whose four inputs hold
  equal values, in whatever stores and at whatever references, return equal strings:
  the string is a function of the documents, notes and identifiers the inputs hold. A
  call leaves every array and object that existed before it as it was, its four inputs
  among them, and the page state; what it adds are arrays of its own (the results of
  the two filters) and one line on the console.
\<close>

theorem buildRichContext_deterministic_pure:
  assumes "stringsAt st dI = Some dIds" and "stringsAt st nI = Some nIds"
    and "documentsAt st aD = Some docs" and "notesAt st aN = Some nts"
    and "stringsAt st' dI' = Some dIds" and "stringsAt st' nI' = Some nIds"
    and "documentsAt st' aD' = Some docs" and "notesAt st' aN' = Some nts"
  shows "\<exists>st1.
           buildRichContextIn dI nI aD aN st =
             Some (buildRichContext (Some dIds) (Some nIds) (Some docs) (Some nts), st1) \<and>
           map_option fst (buildRichContextIn dI' nI' aD' aN' st') =
             map_option fst (buildRichContextIn dI nI aD aN st) \<and>
           take (length (cells st)) (cells st1) = cells st \<and>
           stringsAt st1 dI = Some dIds \<and> stringsAt st1 nI = Some nIds \<and>
           documentsAt st1 aD = Some docs \<and> notesAt st1 aN = Some nts \<and>
           pageState st1 = pageState st \<and>
           console st1 = console st @
             [''Generated Context: '' @
              buildRichContext (Some dIds) (Some nIds) (Some docs) (Some nts)]"
proof -
  let ?text = "buildRichContext (Some dIds) (Some nIds) (Some docs) (Some nts)"
  from buildRichContextIn_refines [OF assms(1-4)]
  obtain selD selN where
    1: "buildRichContextIn dI nI aD aN st =
          Some (?text, st\<lparr>cells := cells st @ [ObjectArray selD, ObjectArray selN],
                         console := console st @ [''Generated Context: '' @ ?text]\<rparr>)"
    by blast
  from buildRichContextIn_refines [OF assms(5-8)]
  obtain selD' selN' where
    2: "buildRichContextIn dI' nI' aD' aN' st' =
          Some (?text, st'\<lparr>cells := cells st' @ [ObjectArray selD', ObjectArray selN'],
                          console := console st' @ [''Generated Context: '' @ ?text]\<rparr>)"
    by blast
  let ?new = "[ObjectArray selD, ObjectArray selN]"
  let ?st1 = "st\<lparr>cells := cells st @ ?new, console := console st @ [''Generated Context: '' @ ?text]\<rparr>"
  have c: "stringsAt ?st1 v = stringsAt (st\<lparr>cells := cells st @ ?new\<rparr>) v"
    "documentsAt ?st1 v = documentsAt (st\<lparr>cells := cells st @ ?new\<rparr>) v"
    "notesAt ?st1 v = notesAt (st\<lparr>cells := cells st @ ?new\<rparr>) v" for v
    using reads_console [where st = "st\<lparr>cells := cells st @ ?new\<rparr>"] by simp_all
  have "stringsAt ?st1 dI = Some dIds" "stringsAt ?st1 nI = Some nIds"
    "documentsAt ?st1 aD = Some docs" "notesAt ?st1 aN = Some nts"
    unfolding c
    by (rule stringsAt_append [OF assms(1)], rule stringsAt_append [OF assms(2)],
        rule documentsAt_append [OF assms(3)], rule notesAt_append [OF assms(4)])
  with 1 2 show ?thesis by (intro exI [of _ ?st1]) simp
qed

theorem buildRichContext_deterministic_pure_witness:
  "stringsAt exampleStore (Some 0) = Some [''d2''] \<and>
   stringsAt exampleStore (Some 1) = Some [''n1''] \<and>
   documentsAt exampleStore (Some 4) =
     Some [exampleDocument ''d1'' ''One'', exampleDocument ''d2'' ''Two''] \<and>
   notesAt exampleStore (Some 6) = Some [exampleNote ''n1'' ''Three''] \<and>
   stringsAt otherStore (Some 6) = Some [''d2''] \<and>
   stringsAt otherStore (Some 5) = Some [''n1''] \<and>
   documentsAt otherStore (Some 4) =
     Some [exampleDocument ''d1'' ''One'', exampleDocument ''d2'' ''Two''] \<and>
   notesAt otherStore (Some 3) = Some [exampleNote ''n1'' ''Three''] \<and>
   map_option fst (buildRichContextIn (Some 0) (Some 1) (Some 4) (Some 6) exampleStore) =
     Some (buildRichContext (Some [''d2'']) (Some [''n1''])
             (Some [exampleDocument ''d1'' ''One'', exampleDocument ''d2'' ''Two''])
             (Some [exampleNote ''n1'' ''Three''])) \<and>
   map_option fst (buildRichContextIn (Some 6) (Some 5) (Some 4) (Some 3) otherStore) =
     map_option fst (buildRichContextIn (Some 0) (Some 1) (Some 4) (Some 6) exampleStore) \<and>
   map_option (\<lambda>r. take (length (cells exampleStore)) (cells (snd r)))
       (buildRichContextIn (Some 0) (Some 1) (Some 4) (Some 6) exampleStore) =
     Some (cells exampleStore)"
proof -
  have a: "stringsAt exampleStore (Some 0) = Some [''d2'']"
    "stringsAt exampleStore (Some 1) = Some [''n1'']"
    "documentsAt exampleStore (Some 4) =
       Some [exampleDocument ''d1'' ''One'', exampleDocument ''d2'' ''Two'']"
    "notesAt exampleStore (Some 6) = Some [exampleNote ''n1'' ''Three'']"
    by (simp_all add: exampleStore_def stringsAt_def documentsAt_def notesAt_def refsAt_def
        documentAt_def noteAt_def cellAt_def)
  have b: "stringsAt otherStore (Some 6) = Some [''d2'']"
    "stringsAt otherStore (Some 5) = Some [''n1'']"
    "documentsAt otherStore (Some 4) =
       Some [exampleDocument ''d1'' ''One'', exampleDocument ''d2'' ''Two'']"
    "notesAt otherStore (Some 3) = Some [exampleNote ''n1'' ''Three'']"
    by (simp_all add: otherStore_def stringsAt_def documentsAt_def notesAt_def refsAt_def
        documentAt_def noteAt_def cellAt_def)
  from buildRichContext_deterministic_pure [OF a b]
  obtain st1 where
    "buildRichContextIn (Some 0) (Some 1) (Some 4) (Some 6) exampleStore =
       Some (buildRichContext (Some [''d2'']) (Some [''n1''])
               (Some [exampleDocument ''d1'' ''One'', exampleDocument ''d2'' ''Two''])
               (Some [exampleNote ''n1'' ''Three'']), st1)"
    "map_option fst (buildRichContextIn (Some 6) (Some 5) (Some 4) (Some 3) otherStore) =
       map_option fst (buildRichContextIn (Some 0) (Some 1) (Some 4) (Some 6) exampleStore)"
    "take (length (cells exampleStore)) (cells st1) = cells exampleStore"
    by blast
  with a b show ?thesis by simp
qed

subsection \<open>A failed AI call for a new message\<close>

lemma aiCallFailed_Inl: "aiCallFailed r \<Longrightarrow> \<exists>e. aiResponseContent r = Inl e"
  by (cases r) (auto simp: aiCallFailed_def aiResponseContent_def truthy_def split: option.splits)

text \<open>
  C2. For every failed AI call in new-message mode (a thrown error, a remote error or an
  empty response, with no message to update), \<open>_getAIResponse\<close> appends exactly one
  message to the buffer: an assistant message flagged \<open>isError: true\<close> whose
  \<open>originalUserMessageContent\<close> is the user's text. The messages already in the buffer
  stay as they are.
\<close>

theorem failed_new_message_appends_one_error:
  assumes "currentUser = Some userId" and "sessionId \<noteq> []"
    and "\<not> truthy aiMessageIdToUpdate"
    and "aiCallFailed (ai_invoke env
           \<lparr>rq_userId = userId, rq_sessionId = sessionId,
            rq_chatHistory = chatHistory cl userMessageContent aiMessageIdToUpdate
                               imageDataBase64 imageMime\<rparr>)"
  shows "chatMessages (getAIResponse cl env userMessageContent currentUser sessionId
            attachedDocs attachedNotes aiMessageIdToUpdate imageDataBase64 imageMime st) =
         chatMessages st @
           [last (chatMessages (getAIResponse cl env userMessageContent currentUser sessionId
              attachedDocs attachedNotes aiMessageIdToUpdate imageDataBase64 imageMime st))] \<and>
         role (last (chatMessages (getAIResponse cl env userMessageContent currentUser sessionId
            attachedDocs attachedNotes aiMessageIdToUpdate imageDataBase64 imageMime st))) =
           ''assistant'' \<and>
         isError (last (chatMessages (getAIResponse cl env userMessageContent currentUser
            sessionId attachedDocs attachedNotes aiMessageIdToUpdate imageDataBase64 imageMime st))) =
           Some True \<and>
         originalUserMessageContent (last (chatMessages (getAIResponse cl env
            userMessageContent currentUser sessionId attachedDocs attachedNotes
            aiMessageIdToUpdate imageDataBase64 imageMime st))) = Some userMessageContent"
proof -
  from aiCallFailed_Inl [OF assms(4)] obtain e where
    "aiResponseContent (ai_invoke env
           \<lparr>rq_userId = userId, rq_sessionId = sessionId,
            rq_chatHistory = chatHistory cl userMessageContent aiMessageIdToUpdate
                               imageDataBase64 imageMime\<rparr>) = Inl e" ..
  with assms(1-3) show ?thesis
    by (simp add: getAIResponse_def aiTryCatch_def aiCatch_def Let_def)
qed

theorem failed_new_message_appends_one_error_witness:
  "aiCallFailed (ai_invoke failingAi
      \<lparr>rq_userId = ''u1'', rq_sessionId = ''s1'',
       rq_chatHistory = chatHistory conversation ''And a functor?'' None None None\<rparr>) \<and>
   chatMessages (getAIResponse conversation failingAi ''And a functor?'' (Some ''u1'') ''s1''
      [] [] None None None conversation) =
     chatMessages conversation @
       [\<lparr>message_id = ''uuid-1'',
         content = ''I'm sorry, I couldn't generate a response: AI service error: The model is overloaded. Please try again.'',
         role = ''assistant'', timestamp = ''2024-01-01T10:00:06Z'', isError = Some True,
         originalUserMessageContent = Some ''And a functor?'', imageUrl = None,
         imageMimeType = None, attachedDocumentIds = None, attachedNoteIds = None\<rparr>]"
proof -
  have f: "aiCallFailed (ai_invoke failingAi
      \<lparr>rq_userId = ''u1'', rq_sessionId = ''s1'',
       rq_chatHistory = chatHistory conversation ''And a functor?'' None None None\<rparr>)"
    by (simp add: failingAi_def aiCallFailed_def)
  have n: "\<not> truthy None" by (simp add: truthy_def)
  have l: "last (chatMessages (getAIResponse conversation failingAi ''And a functor?''
      (Some ''u1'') ''s1'' [] [] None None None conversation)) =
       \<lparr>message_id = ''uuid-1'',
         content = ''I'm sorry, I couldn't generate a response: AI service error: The model is overloaded. Please try again.'',
         role = ''assistant'', timestamp = ''2024-01-01T10:00:06Z'', isError = Some True,
         originalUserMessageContent = Some ''And a functor?'', imageUrl = None,
         imageMimeType = None, attachedDocumentIds = None, attachedNoteIds = None\<rparr>"
    by (simp add: getAIResponse_def aiTryCatch_def aiCatch_def aiResponseContent_def failingAi_def Let_def
        truthy_def or_else_def)
  from failed_new_message_appends_one_error [where st = conversation and attachedDocs = "[]"
      and attachedNotes = "[]", OF refl _ n f]
  have "chatMessages (getAIResponse conversation failingAi ''And a functor?'' (Some ''u1'') ''s1''
      [] [] None None None conversation) =
     chatMessages conversation @
       [last (chatMessages (getAIResponse conversation failingAi ''And a functor?''
          (Some ''u1'') ''s1'' [] [] None None None conversation))]"
    by simp
  with f l show ?thesis by simp
qed

subsection \<open>Regenerating and retrying a response\<close>

lemma sameExceptResponse_refl: "sameExceptResponse m m"
  by (simp add: sameExceptResponse_def)

lemma sameExceptResponse_update:
  "sameExceptResponse m (m\<lparr>content := c, timestamp := t, isError := e\<rparr>)"
  by (simp add: sameExceptResponse_def)

lemma sameExceptResponse_update':
  "sameExceptResponse m (m\<lparr>content := c, isError := e, timestamp := t\<rparr>)"
  by (simp add: sameExceptResponse_def)

lemma sameExceptResponse_id: "sameExceptResponse m m' \<Longrightarrow> message_id m' = message_id m"
  by (cases m, cases m') (simp add: sameExceptResponse_def)

lemma sameExceptResponse_trans:
  "sameExceptResponse a b \<Longrightarrow> sameExceptResponse b c \<Longrightarrow> sameExceptResponse a c"
  by (cases a, cases b, cases c) (simp add: sameExceptResponse_def)

lemma onlyTargetChanged_map:
  assumes "\<And>m. message_id m = target \<Longrightarrow> sameExceptResponse m (f m)"
    and "\<And>m. message_id m \<noteq> target \<Longrightarrow> f m = m"
  shows "onlyTargetChanged target xs (map f xs)"
  using assms by (simp add: onlyTargetChanged_def list_all2_map2 list_all2_same)

lemma onlyTargetChanged_refl: "onlyTargetChanged target xs xs"
  by (simp add: onlyTargetChanged_def list_all2_same sameExceptResponse_refl)

lemma onlyTargetChanged_trans:
  assumes "onlyTargetChanged target xs ys" and "onlyTargetChanged target ys zs"
  shows "onlyTargetChanged target xs zs"
proof -
  let ?R = "\<lambda>m m'. if message_id m = target then sameExceptResponse m m' else m' = m"
  have "?R a c" if "?R a b" and "?R b c" for a b c
    using that
    by (auto split: if_splits dest: sameExceptResponse_id intro: sameExceptResponse_trans)
  then have "list_all2 ?R xs zs"
    using assms unfolding onlyTargetChanged_def
    by (rule_tac list_all2_trans) auto
  then show ?thesis by (simp add: onlyTargetChanged_def)
qed

lemma thinking_onlyTargetChanged: "onlyTargetChanged target xs (thinking now target xs)"
  unfolding thinking_def
  by (rule onlyTargetChanged_map) (simp_all add: sameExceptResponse_update)

lemma getAIResponse_update_onlyTargetChanged:
  assumes "target \<noteq> []"
  shows "onlyTargetChanged target (chatMessages st)
           (chatMessages (getAIResponse cl env userMessageContent currentUser sessionId
              attachedDocs attachedNotes (Some target) imageDataBase64 imageMime st))"
proof -
  have t: "truthy (Some target)" using assms by (simp add: truthy_def)
  have ok: "onlyTargetChanged target (chatMessages st)
      (map (\<lambda>msg. if Some (message_id msg) = Some target
                  then msg\<lparr>content := c, timestamp := ts, isError := e\<rparr> else msg)
         (chatMessages st))" for c ts e
    by (rule onlyTargetChanged_map) (simp_all add: sameExceptResponse_update)
  have ok': "onlyTargetChanged target (chatMessages st)
      (map (\<lambda>msg. if Some (message_id msg) = Some target
                  then msg\<lparr>content := c, isError := e, timestamp := ts\<rparr> else msg)
         (chatMessages st))" for c ts e
    by (rule onlyTargetChanged_map) (simp_all add: sameExceptResponse_update')
  show ?thesis
    using t ok ok'
    by (auto simp: getAIResponse_def aiTryCatch_def saveAiResponse_def aiCatch_def Let_def
        onlyTargetChanged_refl split: option.splits sum.splits)
qed

text \<open>
  C3. For every regenerate or retry invocation that targets the assistant message with
  (non-empty) identifier \<open>M\<close>, on success and on failure, the message buffer afterwards
  has the same messages in the same positions, those with an identifier other than \<open>M\<close>
  unchanged, and the one with identifier \<open>M\<close> different at most in its content,
  timestamp and error flag. An invocation that finds nothing to regenerate leaves the
  buffer as it is.
\<close>

theorem regenerate_changes_only_target:
  "(\<forall>a. find (\<lambda>msg. role msg = ''assistant'') (rev (chatMessages st)) = Some a \<longrightarrow>
        message_id a \<noteq> [] \<longrightarrow>
        onlyTargetChanged (message_id a) (chatMessages st)
          (chatMessages (handleRegenerateResponse env now lastUserMessageContent st))) \<and>
   (find (\<lambda>msg. role msg = ''assistant'') (rev (chatMessages st)) = None \<longrightarrow>
      chatMessages (handleRegenerateResponse env now lastUserMessageContent st) = chatMessages st) \<and>
   (M \<noteq> [] \<longrightarrow>
      onlyTargetChanged M (chatMessages st)
        (chatMessages (handleRetryFailedMessage env now originalContent M st)))"
proof (intro conjI allI impI)
  fix a
  assume a: "find (\<lambda>msg. role msg = ''assistant'') (rev (chatMessages st)) = Some a"
    and ne: "message_id a \<noteq> []"
  have "onlyTargetChanged (message_id a) (chatMessages st)
          (chatMessages (getAIResponse cl env' c u sid d n (Some (message_id a)) i j
             (st\<lparr>chatMessages := thinking now (message_id a) (chatMessages st)\<rparr>)))"
    for cl env' c u sid d n i j
    using getAIResponse_update_onlyTargetChanged [OF ne, of
        "st\<lparr>chatMessages := thinking now (message_id a) (chatMessages st)\<rparr>" cl env' c u sid d n i j]
      thinking_onlyTargetChanged [of "message_id a" "chatMessages st" now]
    by (auto intro: onlyTargetChanged_trans)
  then show "onlyTargetChanged (message_id a) (chatMessages st)
          (chatMessages (handleRegenerateResponse env now lastUserMessageContent st))"
    using a by (simp add: handleRegenerateResponse_def onlyTargetChanged_refl split: option.splits)
next
  assume "find (\<lambda>msg. role msg = ''assistant'') (rev (chatMessages st)) = None"
  then show "chatMessages (handleRegenerateResponse env now lastUserMessageContent st) =
      chatMessages st"
    by (simp add: handleRegenerateResponse_def split: option.splits)
next
  assume ne: "M \<noteq> []"
  have "onlyTargetChanged M (chatMessages st)
          (chatMessages (getAIResponse cl env' c u sid d n (Some M) i j
             (st\<lparr>chatMessages := thinking now M (chatMessages st)\<rparr>)))"
    for cl env' c u sid d n i j
    using getAIResponse_update_onlyTargetChanged [OF ne, of
        "st\<lparr>chatMessages := thinking now M (chatMessages st)\<rparr>" cl env' c u sid d n i j]
      thinking_onlyTargetChanged [of M "chatMessages st" now]
    by (auto intro: onlyTargetChanged_trans)
  then show "onlyTargetChanged M (chatMessages st)
        (chatMessages (handleRetryFailedMessage env now originalContent M st))"
    by (simp add: handleRetryFailedMessage_def onlyTargetChanged_refl split: option.splits)
qed

theorem regenerate_changes_only_target_witness:
  "find (\<lambda>msg. role msg = ''assistant'') (rev (chatMessages conversation)) =
     Some (exampleMessage ''m2'' ''assistant'' ''A monoid.'') \<and>
   message_id (exampleMessage ''m2'' ''assistant'' ''A monoid.'') = ''m2'' \<and>
   map content (chatMessages (handleRegenerateResponse answeringAi ''2024-01-01T10:00:05Z''
      ''What is a monad?'' conversation)) = [''What is a monad?'', ''Here is the answer.''] \<and>
   onlyTargetChanged ''m2'' (chatMessages conversation)
     (chatMessages (handleRegenerateResponse answeringAi ''2024-01-01T10:00:05Z''
        ''What is a monad?'' conversation)) \<and>
   onlyTargetChanged ''m2'' (chatMessages conversation)
     (chatMessages (handleRetryFailedMessage failingAi ''2024-01-01T10:00:05Z''
        ''What is a monad?'' ''m2'' conversation))"
proof -
  note T = regenerate_changes_only_target [of conversation answeringAi
      "''2024-01-01T10:00:05Z''" "''What is a monad?''" "''m2''" "''What is a monad?''"]
  note R = regenerate_changes_only_target [of conversation failingAi
      "''2024-01-01T10:00:05Z''" "''What is a monad?''" "''m2''" "''What is a monad?''"]
  have f: "find (\<lambda>msg. role msg = ''assistant'') (rev (chatMessages conversation)) =
     Some (exampleMessage ''m2'' ''assistant'' ''A monoid.'')"
    by (simp add: conversation_def exampleMessage_def)
  have i: "message_id (exampleMessage ''m2'' ''assistant'' ''A monoid.'') = ''m2''"
    by (simp add: exampleMessage_def)
  have ne: "message_id (exampleMessage ''m2'' ''assistant'' ''A monoid.'') \<noteq> []"
    by (simp add: exampleMessage_def)
  have c: "map content (chatMessages (handleRegenerateResponse answeringAi
      ''2024-01-01T10:00:05Z'' ''What is a monad?'' conversation)) =
      [''What is a monad?'', ''Here is the answer.'']"
    by (simp add: handleRegenerateResponse_def getAIResponse_def aiTryCatch_def
        saveAiResponse_def aiResponseContent_def thinking_def conversation_def
        initialState_def exampleMessage_def answeringAi_def failingAi_def truthy_def
        or_else_def Let_def)
  from T [THEN conjunct1, rule_format, OF f ne]
  have a: "onlyTargetChanged ''m2'' (chatMessages conversation)
     (chatMessages (handleRegenerateResponse answeringAi ''2024-01-01T10:00:05Z''
        ''What is a monad?'' conversation))"
    by (simp only: i)
  have "''m2'' \<noteq> []" by simp
  from R [THEN conjunct2, THEN conjunct2, rule_format, OF this]
  have b: "onlyTargetChanged ''m2'' (chatMessages conversation)
     (chatMessages (handleRetryFailedMessage failingAi ''2024-01-01T10:00:05Z''
        ''What is a monad?'' ''m2'' conversation))" .
  from f i c a b show ?thesis by simp
qed

subsection \<open>The submission flags\<close>

text \<open>
  Run with nothing else in between, the routines of \<open>_getAIResponse\<close> and
  \<open>handleRegenerateResponse\<close> compute the functions \<open>getAIResponse\<close> and
  \<open>handleRegenerateResponse\<close> above.
\<close>

lemma getAIResponseRoutine_runAlone:
  "runAlone (getAIResponseRoutine cl env c u sid d n t i j) st = getAIResponse cl env c u sid d n t i j st"
  by (simp add: runAlone_def runSteps_def stepsOf_def getAIResponseRoutine_def aiTryRoutine_def
      touchSessionRoutine_def andThen_def returns_def setting_def awaiting_def
      getAIResponse_def aiTryCatch_def saveAiResponse_def Let_def
      split: option.splits sum.splits)

lemma handleRegenerateResponseRoutine_runAlone:
  "runAlone (handleRegenerateResponseRoutine st env now c) st = handleRegenerateResponse env now c st"
  by (simp add: runAlone_def runSteps_def stepsOf_def handleRegenerateResponseRoutine_def getAIResponseRoutine_def aiTryRoutine_def
      touchSessionRoutine_def andThen_def returns_def setting_def awaiting_def handleRegenerateResponse_def
      getAIResponse_def aiTryCatch_def saveAiResponse_def Let_def
      split: option.splits sum.splits)

lemma flagWrites_simps:
  "flagWrites (\<lambda>s. s) None None"
  "flagWrites (\<lambda>s. s\<lparr>isSubmittingUserMessage := b\<rparr>) (Some b) None"
  "flagWrites (\<lambda>s. s\<lparr>isAILoading := b\<rparr>) None (Some b)"
  by (simp_all add: flagWrites_def)

lemma stepsOf_fused: "stepsOf m = fusedSteps (\<lambda>s. s) m @ [(Completed, fusedFinal (\<lambda>s. s) m)]"
  by (cases m) (simp add: stepsOf_def fusedSteps_def fusedFinal_def split: list.splits)

lemma fused_returns [simp]:
  "fusedSteps f (returns r) = []" "fusedFinal f (returns r) = f" "returned (returns r) = r"
  by (simp_all add: fusedSteps_def fusedFinal_def returns_def returned_def)

lemma fused_setting [simp]:
  "fusedSteps f (setting g) = []" "fusedFinal f (setting g) = (\<lambda>s. g (f s))"
  by (simp_all add: fusedSteps_def fusedFinal_def setting_def)

lemma fused_awaiting [simp]:
  "fusedSteps f (awaiting p) = [(p, f)]" "fusedFinal f (awaiting p) = (\<lambda>s. s)"
  by (simp_all add: fusedSteps_def fusedFinal_def awaiting_def)

lemma fused_andThen:
  "fusedSteps f (andThen m k) = fusedSteps f m @ fusedSteps (fusedFinal f m) (k (returned m))"
  "fusedFinal f (andThen m k) = fusedFinal (fusedFinal f m) (k (returned m))"
proof -
  obtain steps g r where m: "m = (steps, g, r)" by (cases m)
  obtain steps' g' r' where k: "k r = (steps', g', r')" by (cases "k r")
  show "fusedSteps f (andThen m k) = fusedSteps f m @ fusedSteps (fusedFinal f m) (k (returned m))"
    by (cases steps; cases steps')
       (auto simp: andThen_def fusedSteps_def fusedFinal_def returned_def m k)
  show "fusedFinal f (andThen m k) = fusedFinal (fusedFinal f m) (k (returned m))"
    by (cases steps; cases steps')
       (auto simp: andThen_def fusedSteps_def fusedFinal_def returned_def m k)
qed

lemma awaitStates_append:
  "awaitStates (xs @ ys) s = awaitStates xs s @ awaitStates ys (runSteps xs s)"
  by (induction xs arbitrary: s) (auto simp: runSteps_def)

lemma runSteps_append: "runSteps (xs @ ys) s = runSteps ys (runSteps xs s)"
  by (simp add: runSteps_def)

lemma runSteps_simps [simp]: "runSteps [] s = s" "runSteps ((p, f) # xs) s = runSteps xs (f s)"
  by (simp_all add: runSteps_def)

lemma flags_loadChatSessionsFrom:
  "isAILoading (loadChatSessionsFrom cl env st) = isAILoading st"
  "isSubmittingUserMessage (loadChatSessionsFrom cl env st) = isSubmittingUserMessage st"
  by (simp_all add: loadChatSessionsFrom_def split: option.splits sum.splits)

lemma flags_aiCatch:
  "isAILoading (aiCatch env e c t s) = isAILoading s"
  "isSubmittingUserMessage (aiCatch env e c t s) = isSubmittingUserMessage s"
  by (simp_all add: aiCatch_def)

subsubsection \<open>What the steps write\<close>

lemma flagWrites_compose:
  "flagWrites f a b \<Longrightarrow> flagWrites g a' b' \<Longrightarrow> flagWrites (\<lambda>s. g (f s)) (later a' a) (later b' b)"
  by (auto simp: flagWrites_def later_def split: option.splits)

lemma writesAsDue_returns: "writesAsDue w (returns r) w"
  by (simp add: writesAsDue_def)

lemma writesAsDue_setting:
  "flagWrites g a b \<Longrightarrow> writesAsDue w (setting g) (later a (fst w), later b (snd w))"
  by (simp add: writesAsDue_def flagWrites_compose)

lemma writesAsDue_quiet: "flagWrites g None None \<Longrightarrow> writesAsDue w (setting g) w"
  using writesAsDue_setting [of g None None w] by (simp add: later_def)

lemma writesAsDue_awaiting:
  "p \<noteq> Completed \<Longrightarrow> writesAsDue (submittingWrite p, loadingWrite p) (awaiting p) (None, None)"
  by (simp add: writesAsDue_def flagWrites_def)

lemma writesAsDue_andThen:
  assumes "writesAsDue w m w1" and "\<And>r. writesAsDue w1 (k r) w2"
  shows "writesAsDue w (andThen m k) w2"
  using assms unfolding writesAsDue_def fused_andThen by auto

lemma writesAsDue_await_then:
  assumes "p \<noteq> Completed" and "w = (submittingWrite p, loadingWrite p)"
    and "writesAsDue (None, None) (k ()) w2"
  shows "writesAsDue w (andThen (awaiting p) k) w2"
  using writesAsDue_andThen [of w "awaiting p" "(None, None)" k w2] writesAsDue_awaiting assms
  by auto

lemma writesAsDue_quiet_then:
  assumes "flagWrites g None None" and "writesAsDue w (k ()) w2"
  shows "writesAsDue w (andThen (setting g) k) w2"
  using writesAsDue_andThen [of w "setting g" w k w2] writesAsDue_quiet assms by auto

lemma loadChatSessionsRoutine_writes:
  "writesAsDue (None, None) (loadChatSessionsRoutine cl env) (None, None)"
  unfolding loadChatSessionsRoutine_def
  by (auto split: option.splits
      intro!: writesAsDue_returns writesAsDue_await_then writesAsDue_quiet
      simp: submittingWrite_def loadingWrite_def flagWrites_def flags_loadChatSessionsFrom)

lemma createNewChatSession_writes:
  "writesAsDue (None, None) (createNewChatSession cl env created) (None, None)"
  unfolding createNewChatSession_def
  by (auto split: option.splits sum.splits
      intro!: writesAsDue_returns writesAsDue_await_then writesAsDue_quiet_then
        writesAsDue_andThen [OF loadChatSessionsRoutine_writes]
      simp: submittingWrite_def loadingWrite_def flagWrites_def)

lemma refreshUploadedDocument_writes:
  "writesAsDue (None, None) (refreshUploadedDocument fetched docId) (None, None)"
  unfolding refreshUploadedDocument_def
  by (auto split: option.splits sum.splits
      intro!: writesAsDue_returns writesAsDue_await_then writesAsDue_quiet_then
      simp: submittingWrite_def loadingWrite_def flagWrites_def)

lemma touchSessionRoutine_writes:
  "writesAsDue (None, None) (touchSessionRoutine env sid d) (None, None)"
  unfolding touchSessionRoutine_def
  by (auto intro!: writesAsDue_returns writesAsDue_await_then writesAsDue_quiet_then
      simp: submittingWrite_def loadingWrite_def flagWrites_def)

lemma aiTryRoutine_writes:
  "writesAsDue (None, Some True) (aiTryRoutine cl env c u sid d t i j) (None, None)"
  unfolding aiTryRoutine_def
  by (auto split: option.splits sum.splits
      intro!: writesAsDue_returns writesAsDue_await_then writesAsDue_quiet_then
        touchSessionRoutine_writes
      simp: submittingWrite_def loadingWrite_def flagWrites_def)

lemma getAIResponseRoutine_writes:
  assumes "sid \<noteq> []"
  shows "writesAsDue (None, None) (getAIResponseRoutine cl env c (Some u) sid d n t i j)
           (None, Some False)"
proof -
  have raise: "writesAsDue (None, None) (setting (\<lambda>s. s\<lparr>isAILoading := True\<rparr>)) (None, Some True)"
    using writesAsDue_setting [of "\<lambda>s. s\<lparr>isAILoading := True\<rparr>" None "Some True" "(None, None)"]
    by (simp add: flagWrites_def later_def)
  have lower: "writesAsDue (None, None) (setting (\<lambda>s. s\<lparr>isAILoading := False\<rparr>)) (None, Some False)"
    using writesAsDue_setting [of "\<lambda>s. s\<lparr>isAILoading := False\<rparr>" None "Some False" "(None, None)"]
    by (simp add: flagWrites_def later_def)
  have catch: "writesAsDue (None, None)
      (case thrown of None \<Rightarrow> returns () | Some e \<Rightarrow> setting (aiCatch env e c t)) (None, None)"
    for thrown
    by (cases thrown)
       (auto intro!: writesAsDue_returns writesAsDue_quiet simp: flagWrites_def flags_aiCatch)
  show ?thesis
    using assms unfolding getAIResponseRoutine_def
    by (auto intro!: writesAsDue_andThen [OF raise] writesAsDue_andThen [OF aiTryRoutine_writes]
        writesAsDue_andThen [OF catch] lower)
qed

lemma currentSessionFor_writes:
  "writesAsDue (None, None) (currentSessionFor cl env senv) (None, None)"
  by (simp add: currentSessionFor_def writesAsDue_returns createNewChatSession_writes)

lemma refreshImageDocument_writes:
  "writesAsDue (None, None) (refreshImageDocument cl senv ds iu) (None, None)"
  unfolding refreshImageDocument_def
  by (auto split: option.splits
      intro!: writesAsDue_returns writesAsDue_andThen [OF refreshUploadedDocument_writes])

lemma saveAndAnswer_writes:
  assumes "sid \<noteq> []"
  shows "writesAsDue (None, None) (saveAndAnswer cl senv aenv c ds ns im ib u sid) (None, None)"
proof -
  have last: "writesAsDue (None, Some False) (awaiting AwaitUpdateSessionDocuments) (None, None)"
    using writesAsDue_awaiting [of AwaitUpdateSessionDocuments]
    by (simp add: submittingWrite_def loadingWrite_def)
  show ?thesis
    unfolding saveAndAnswer_def
    by (auto split: sum.splits option.splits
        intro!: writesAsDue_returns writesAsDue_quiet_then writesAsDue_await_then
          writesAsDue_andThen [OF getAIResponseRoutine_writes [OF assms]] last
        simp: flagWrites_def submittingWrite_def loadingWrite_def)
qed

lemma submitTry_writes:
  "writesAsDue (Some True, None) (submitTry cl env senv aenv mc d n iu im ib) (None, None)"
  unfolding submitTry_def
  by (auto split: option.splits
      intro!: writesAsDue_returns writesAsDue_await_then
        writesAsDue_andThen [OF currentSessionFor_writes]
        writesAsDue_andThen [OF refreshImageDocument_writes] saveAndAnswer_writes
      simp: submittingWrite_def loadingWrite_def)

lemma handleSubmit_writes:
  assumes "\<not> submitRejected cl mc d n iu"
  shows "writesAsDue (None, None) (handleSubmit cl env senv aenv mc d n iu im ib)
           (Some False, None)"
proof -
  have raise: "writesAsDue (None, None) (setting (\<lambda>s. s\<lparr>isSubmittingUserMessage := True\<rparr>))
      (Some True, None)"
    using writesAsDue_setting [of "\<lambda>s. s\<lparr>isSubmittingUserMessage := True\<rparr>" "Some True" None
        "(None, None)"]
    by (simp add: flagWrites_def later_def)
  have lower: "writesAsDue (None, None) (setting (\<lambda>s. s\<lparr>isSubmittingUserMessage := False\<rparr>))
      (Some False, None)"
    using writesAsDue_setting [of "\<lambda>s. s\<lparr>isSubmittingUserMessage := False\<rparr>" "Some False" None
        "(None, None)"]
    by (simp add: flagWrites_def later_def)
  show ?thesis
    using assms unfolding handleSubmit_def
    by (auto intro!: writesAsDue_andThen [OF raise] writesAsDue_andThen [OF submitTry_writes] lower)
qed

lemma handleSubmit_flagDiscipline:
  assumes "\<not> submitRejected cl mc d n iu"
  shows "list_all flagDiscipline (stepsOf (handleSubmit cl env senv aenv mc d n iu im ib))"
proof -
  have id: "flagWrites (\<lambda>s. s) None None" by (simp add: flagWrites_def)
  from handleSubmit_writes [OF assms, of env senv aenv im ib] id
  have inner: "list_all (\<lambda>step. fst step \<noteq> Completed \<and>
                      flagWrites (snd step) (submittingWrite (fst step)) (loadingWrite (fst step)))
        (fusedSteps (\<lambda>s. s) (handleSubmit cl env senv aenv mc d n iu im ib))"
    and final: "flagWrites (fusedFinal (\<lambda>s. s) (handleSubmit cl env senv aenv mc d n iu im ib))
        (Some False) None"
    unfolding writesAsDue_def by auto
  from inner have "list_all flagDiscipline
      (fusedSteps (\<lambda>s. s) (handleSubmit cl env senv aenv mc d n iu im ib))"
    by (rule list.pred_mono_strong)
       (auto simp: flagDiscipline_def submittingWrite_def loadingWrite_def)
  moreover from final have "flagDiscipline
      (Completed, fusedFinal (\<lambda>s. s) (handleSubmit cl env senv aenv mc d n iu im ib))"
    by (simp add: flagDiscipline_def)
  ultimately show ?thesis by (simp add: stepsOf_fused)
qed

subsubsection \<open>The flags at the awaits of a routine that runs alone\<close>

lemma runsAsDue_returns: "runsAsDue v (returns r) v"
  by (simp add: runsAsDue_def)

lemma runsAsDue_setting:
  "flagWrites g a b \<Longrightarrow>
   runsAsDue v (setting g)
     (case a of None \<Rightarrow> fst v | Some x \<Rightarrow> x, case b of None \<Rightarrow> snd v | Some y \<Rightarrow> y)"
  by (auto simp: runsAsDue_def flagWrites_def split: option.splits)

lemma runsAsDue_quiet: "flagWrites g None None \<Longrightarrow> runsAsDue v (setting g) v"
  using runsAsDue_setting [of g None None v] by simp

lemma runsAsDue_awaiting:
  "p \<noteq> Completed \<Longrightarrow>
   v = (True, p \<in> set [AwaitInvokeAI, AwaitSaveAiMessage, AwaitUpdateSession]) \<Longrightarrow>
   runsAsDue v (awaiting p) v"
  by (simp add: runsAsDue_def flagsAsDue_def)

lemma runsAsDue_andThen:
  assumes "runsAsDue v m v1" and "\<And>r. runsAsDue v1 (k r) v2"
  shows "runsAsDue v (andThen m k) v2"
  unfolding runsAsDue_def
proof (intro allI impI)
  fix f :: "index_state \<Rightarrow> index_state" and s :: index_state
  assume v: "isSubmittingUserMessage (f s) = fst v \<and> isAILoading (f s) = snd v"
  let ?s1 = "runSteps (fusedSteps f m) s"
  let ?f1 = "fusedFinal f m"
  from assms(1) v
  have 1: "list_all (\<lambda>ps. fst ps \<noteq> Completed \<and> flagsAsDue ps) (awaitStates (fusedSteps f m) s)"
    and v1: "isSubmittingUserMessage (?f1 ?s1) = fst v1 \<and> isAILoading (?f1 ?s1) = snd v1"
    unfolding runsAsDue_def by blast+
  from assms(2) [of "returned m"] v1
  have 2: "list_all (\<lambda>ps. fst ps \<noteq> Completed \<and> flagsAsDue ps)
             (awaitStates (fusedSteps ?f1 (k (returned m))) ?s1)"
    and v2: "isSubmittingUserMessage
               (fusedFinal ?f1 (k (returned m)) (runSteps (fusedSteps ?f1 (k (returned m))) ?s1)) =
             fst v2"
            "isAILoading
               (fusedFinal ?f1 (k (returned m)) (runSteps (fusedSteps ?f1 (k (returned m))) ?s1)) =
             snd v2"
    unfolding runsAsDue_def by blast+
  from 1 2 v2
  show "list_all (\<lambda>ps. fst ps \<noteq> Completed \<and> flagsAsDue ps)
          (awaitStates (fusedSteps f (andThen m k)) s) \<and>
        isSubmittingUserMessage
          (fusedFinal f (andThen m k) (runSteps (fusedSteps f (andThen m k)) s)) = fst v2 \<and>
        isAILoading (fusedFinal f (andThen m k) (runSteps (fusedSteps f (andThen m k)) s)) = snd v2"
    by (simp add: fused_andThen awaitStates_append runSteps_append)
qed

lemma runsAsDue_await_then:
  assumes "p \<noteq> Completed"
    and "v = (True, p \<in> set [AwaitInvokeAI, AwaitSaveAiMessage, AwaitUpdateSession])"
    and "runsAsDue v (k ()) v2"
  shows "runsAsDue v (andThen (awaiting p) k) v2"
  using runsAsDue_andThen [of v "awaiting p" v k v2] runsAsDue_awaiting assms by auto

lemma runsAsDue_quiet_then:
  assumes "flagWrites g None None" and "runsAsDue v (k ()) v2"
  shows "runsAsDue v (andThen (setting g) k) v2"
  using runsAsDue_andThen [of v "setting g" v k v2] runsAsDue_quiet assms by auto

lemma loadChatSessionsRoutine_runs:
  "runsAsDue (True, False) (loadChatSessionsRoutine cl env) (True, False)"
  unfolding loadChatSessionsRoutine_def
  by (auto split: option.splits
      intro!: runsAsDue_returns runsAsDue_await_then runsAsDue_quiet
      simp: flagWrites_def flags_loadChatSessionsFrom)

lemma createNewChatSession_runs:
  "runsAsDue (True, False) (createNewChatSession cl env created) (True, False)"
  unfolding createNewChatSession_def
  by (auto split: option.splits sum.splits
      intro!: runsAsDue_returns runsAsDue_await_then runsAsDue_quiet_then
        runsAsDue_andThen [OF loadChatSessionsRoutine_runs]
      simp: flagWrites_def)

lemma refreshUploadedDocument_runs:
  "runsAsDue (True, False) (refreshUploadedDocument fetched docId) (True, False)"
  unfolding refreshUploadedDocument_def
  by (auto split: option.splits sum.splits
      intro!: runsAsDue_returns runsAsDue_await_then runsAsDue_quiet_then
      simp: flagWrites_def)

lemma touchSessionRoutine_runs:
  "runsAsDue (True, True) (touchSessionRoutine env sid d) (True, True)"
  unfolding touchSessionRoutine_def
  by (auto intro!: runsAsDue_returns runsAsDue_await_then runsAsDue_quiet_then
      simp: flagWrites_def)

lemma aiTryRoutine_runs:
  "runsAsDue (True, True) (aiTryRoutine cl env c u sid d t i j) (True, True)"
  unfolding aiTryRoutine_def
  by (auto split: option.splits sum.splits
      intro!: runsAsDue_returns runsAsDue_await_then runsAsDue_quiet_then
        touchSessionRoutine_runs
      simp: flagWrites_def)

lemma getAIResponseRoutine_runs:
  "runsAsDue (True, False) (getAIResponseRoutine cl env c u sid d n t i j) (True, False)"
proof -
  have raise: "runsAsDue (True, False) (setting (\<lambda>s. s\<lparr>isAILoading := True\<rparr>)) (True, True)"
    using runsAsDue_setting [of "\<lambda>s. s\<lparr>isAILoading := True\<rparr>" None "Some True" "(True, False)"]
    by (simp add: flagWrites_def)
  have lower: "runsAsDue (True, True) (setting (\<lambda>s. s\<lparr>isAILoading := False\<rparr>)) (True, False)"
    using runsAsDue_setting [of "\<lambda>s. s\<lparr>isAILoading := False\<rparr>" None "Some False" "(True, True)"]
    by (simp add: flagWrites_def)
  have catch: "runsAsDue (True, True)
      (case thrown of None \<Rightarrow> returns () | Some e \<Rightarrow> setting (aiCatch env e c t)) (True, True)"
    for thrown
    by (cases thrown)
       (auto intro!: runsAsDue_returns runsAsDue_quiet simp: flagWrites_def flags_aiCatch)
  show ?thesis
    unfolding getAIResponseRoutine_def
    by (auto split: option.splits
        intro!: runsAsDue_returns runsAsDue_andThen [OF raise]
          runsAsDue_andThen [OF aiTryRoutine_runs] runsAsDue_andThen [OF catch] lower)
qed

lemma currentSessionFor_runs:
  "runsAsDue (True, False) (currentSessionFor cl env senv) (True, False)"
  by (simp add: currentSessionFor_def runsAsDue_returns createNewChatSession_runs)

lemma refreshImageDocument_runs:
  "runsAsDue (True, False) (refreshImageDocument cl senv ds iu) (True, False)"
  unfolding refreshImageDocument_def
  by (auto split: option.splits
      intro!: runsAsDue_returns runsAsDue_andThen [OF refreshUploadedDocument_runs])

lemma saveAndAnswer_runs:
  "runsAsDue (True, False) (saveAndAnswer cl senv aenv c ds ns im ib u sid) (True, False)"
  unfolding saveAndAnswer_def
  by (auto split: sum.splits option.splits
      intro!: runsAsDue_returns runsAsDue_quiet_then runsAsDue_await_then
        runsAsDue_andThen [OF getAIResponseRoutine_runs] runsAsDue_awaiting
      simp: flagWrites_def)

lemma submitTry_runs:
  "runsAsDue (True, False) (submitTry cl env senv aenv mc d n iu im ib) (True, False)"
  unfolding submitTry_def
  by (auto split: option.splits
      intro!: runsAsDue_returns runsAsDue_await_then
        runsAsDue_andThen [OF currentSessionFor_runs]
        runsAsDue_andThen [OF refreshImageDocument_runs] saveAndAnswer_runs)

lemma handleSubmit_runs:
  assumes "\<not> submitRejected cl mc d n iu"
  shows "runsAsDue (x, False) (handleSubmit cl env senv aenv mc d n iu im ib) (False, False)"
proof -
  have raise: "runsAsDue (x, False) (setting (\<lambda>s. s\<lparr>isSubmittingUserMessage := True\<rparr>))
      (True, False)"
    using runsAsDue_setting [of "\<lambda>s. s\<lparr>isSubmittingUserMessage := True\<rparr>" "Some True" None
        "(x, False)"]
    by (simp add: flagWrites_def)
  have lower: "runsAsDue (True, False) (setting (\<lambda>s. s\<lparr>isSubmittingUserMessage := False\<rparr>))
      (False, False)"
    using runsAsDue_setting [of "\<lambda>s. s\<lparr>isSubmittingUserMessage := False\<rparr>" "Some False" None
        "(True, False)"]
    by (simp add: flagWrites_def)
  show ?thesis
    using assms unfolding handleSubmit_def
    by (auto intro!: runsAsDue_andThen [OF raise] runsAsDue_andThen [OF submitTry_runs] lower)
qed

lemma handleSubmit_flagsAsDue:
  assumes "\<not> submitRejected cl mc d n iu" and "\<not> isAILoading st"
  shows "list_all flagsAsDue (awaitStates (stepsOf (handleSubmit cl env senv aenv mc d n iu im ib)) st)"
proof -
  let ?H = "handleSubmit cl env senv aenv mc d n iu im ib"
  from handleSubmit_runs [OF assms(1), of "isSubmittingUserMessage st" env senv aenv im ib] assms(2)
  have inner: "list_all (\<lambda>ps. fst ps \<noteq> Completed \<and> flagsAsDue ps)
                 (awaitStates (fusedSteps (\<lambda>s. s) ?H) st)"
    and final: "\<not> isSubmittingUserMessage
                    (fusedFinal (\<lambda>s. s) ?H (runSteps (fusedSteps (\<lambda>s. s) ?H) st))"
               "\<not> isAILoading (fusedFinal (\<lambda>s. s) ?H (runSteps (fusedSteps (\<lambda>s. s) ?H) st))"
    unfolding runsAsDue_def by auto
  from inner have "list_all flagsAsDue (awaitStates (fusedSteps (\<lambda>s. s) ?H) st)"
    by (rule list.pred_mono_strong) simp
  with final show ?thesis
    by (simp add: stepsOf_fused awaitStates_append flagsAsDue_def)
qed

lemma handleSubmit_first_step:
  assumes "\<not> submitRejected cl mc d n iu"
  shows "hd (stepsOf (handleSubmit cl env senv aenv mc d n iu im ib)) =
           (AwaitGetUser, \<lambda>s. s\<lparr>isSubmittingUserMessage := True\<rparr>)"
  using assms
  by (simp add: stepsOf_fused handleSubmit_def submitTry_def fused_andThen)

lemma handleSubmit_rejected:
  assumes "submitRejected cl mc d n iu"
  shows "stepsOf (handleSubmit cl env senv aenv mc d n iu im ib) = [(Completed, \<lambda>s. s)]"
  using assms by (simp add: stepsOf_fused handleSubmit_def)

lemma handleSubmit_completes:
  assumes "\<not> submitRejected cl mc d n iu" and "\<not> isAILoading st"
  shows "\<not> isSubmittingUserMessage (runAlone (handleSubmit cl env senv aenv mc d n iu im ib) st)"
    and "\<not> isAILoading (runAlone (handleSubmit cl env senv aenv mc d n iu im ib) st)"
  using handleSubmit_runs [OF assms(1), of "isSubmittingUserMessage st" env senv aenv im ib] assms(2)
  unfolding runsAsDue_def runAlone_def stepsOf_fused runSteps_append
  by auto

text \<open>
  C6 as stated fails, in three ways. A \<open>handleSubmit\<close> invocation made while
  \<open>isAILoading\<close> is true (a regeneration is in flight) is rejected by the entry guard
  and completes with the flag still true. In a submission that passes the guard,
  \<open>isAILoading\<close> is not set when the submission starts: it is false while the user and
  the insert of the user message are awaited, and true only from the step of
  \<open>_getAIResponse\<close> on. And when \<open>handleRegenerateResponse\<close> is invoked while the
  submission awaits the update of the session's documents, after the \<open>finally\<close> block
  of \<open>_getAIResponse\<close>, the submission completes with \<open>isAILoading\<close> true.
\<close>

theorem handleSubmit_flags_not_as_stated:
  "isAILoading
     (runAlone (handleSubmit (conversation\<lparr>isAILoading := True\<rparr>) pagedRemote exampleSubmit
                  answeringAi ''And a functor?'' None None None None None)
        (conversation\<lparr>isAILoading := True\<rparr>)) \<and>
   map (\<lambda>ps. (fst ps, isSubmittingUserMessage (snd ps), isAILoading (snd ps)))
     (awaitStates (stepsOf (handleSubmit conversation pagedRemote exampleSubmit answeringAi
                              ''And a functor?'' None None None None None)) conversation) =
     [(AwaitGetUser, True, False), (AwaitInsertUserMessage, True, False),
      (AwaitInvokeAI, True, True), (AwaitSaveAiMessage, True, True),
      (AwaitUpdateSession, True, True), (AwaitUpdateSessionDocuments, True, False),
      (Completed, False, False)] \<and>
   (let submission = stepsOf (handleSubmit conversation pagedRemote exampleSubmit answeringAi
                                ''And a functor?'' None None None None None);
        awaitingUpdate = runSteps (butlast submission) conversation;
        regeneration = stepsOf (handleRegenerateResponseRoutine awaitingUpdate answeringAi
                                  ''2024-01-01T10:00:08Z'' ''And a functor?'');
        regenerating = snd (hd regeneration) awaitingUpdate;
        completed = snd (last submission) regenerating
    in fst (last (butlast submission)) = AwaitUpdateSessionDocuments \<and>
       fst (last submission) = Completed \<and>
       fst (hd regeneration) = AwaitInvokeAI \<and>
       \<not> isAILoading awaitingUpdate \<and>
       isAILoading completed)"
  by code_simp

text \<open>
  C6, amended. For every chat submission that passes the entry guard of \<open>handleSubmit\<close>,
  which requires both flags to be false in the state the callback captured:
  \<open>isSubmittingUserMessage\<close> is set in the first step, before the first remote call is
  awaited, and cleared in the step that completes \<open>handleSubmit\<close>; \<open>isAILoading\<close> is
  set by \<open>_getAIResponse\<close> in the step that ends in awaiting the AI call, and cleared
  by its \<open>finally\<close> block, in the step that ends in awaiting the update of the
  session's documents; no other step of the submission writes either flag, on any path
  (success, failure, early return). Hence, when \<open>isAILoading\<close> is false at the start
  and no other routine runs during the awaits, \<open>isSubmittingUserMessage\<close> is true at
  every await, \<open>isAILoading\<close> is true exactly at the awaits of \<open>_getAIResponse\<close>, and
  both flags are false when the invocation completes. An invocation that the entry
  guard rejects completes at once and writes nothing.
\<close>

theorem submit_flags:
  "(submitRejected cl mc d n iu \<longrightarrow>
      stepsOf (handleSubmit cl env senv aenv mc d n iu im ib) = [(Completed, \<lambda>s. s)]) \<and>
   (\<not> submitRejected cl mc d n iu \<longrightarrow>
      \<not> isAILoading cl \<and> \<not> isSubmittingUserMessage cl \<and>
      hd (stepsOf (handleSubmit cl env senv aenv mc d n iu im ib)) =
        (AwaitGetUser, \<lambda>s. s\<lparr>isSubmittingUserMessage := True\<rparr>) \<and>
      list_all flagDiscipline (stepsOf (handleSubmit cl env senv aenv mc d n iu im ib)) \<and>
      (\<not> isAILoading st \<longrightarrow>
         list_all flagsAsDue
           (awaitStates (stepsOf (handleSubmit cl env senv aenv mc d n iu im ib)) st) \<and>
         \<not> isSubmittingUserMessage
             (runAlone (handleSubmit cl env senv aenv mc d n iu im ib) st) \<and>
         \<not> isAILoading (runAlone (handleSubmit cl env senv aenv mc d n iu im ib) st)))"
proof (intro conjI impI)
  assume "submitRejected cl mc d n iu"
  then show "stepsOf (handleSubmit cl env senv aenv mc d n iu im ib) = [(Completed, \<lambda>s. s)]"
    by (rule handleSubmit_rejected)
next
  assume g: "\<not> submitRejected cl mc d n iu"
  then show "\<not> isAILoading cl" and "\<not> isSubmittingUserMessage cl"
    by (simp_all add: submitRejected_def)
  from g show "hd (stepsOf (handleSubmit cl env senv aenv mc d n iu im ib)) =
        (AwaitGetUser, \<lambda>s. s\<lparr>isSubmittingUserMessage := True\<rparr>)"
    by (rule handleSubmit_first_step)
  from g show "list_all flagDiscipline (stepsOf (handleSubmit cl env senv aenv mc d n iu im ib))"
    by (rule handleSubmit_flagDiscipline)
  assume s: "\<not> isAILoading st"
  from g s show "list_all flagsAsDue
           (awaitStates (stepsOf (handleSubmit cl env senv aenv mc d n iu im ib)) st)"
    by (rule handleSubmit_flagsAsDue)
  from g s show "\<not> isSubmittingUserMessage
             (runAlone (handleSubmit cl env senv aenv mc d n iu im ib) st)"
    by (rule handleSubmit_completes(1))
  from g s show "\<not> isAILoading (runAlone (handleSubmit cl env senv aenv mc d n iu im ib) st)"
    by (rule handleSubmit_completes(2))
qed

theorem submit_flags_witness:
  "\<not> submitRejected conversation ''And a functor?'' None None None \<and>
   \<not> isAILoading conversation \<and>
   hd (stepsOf (handleSubmit conversation pagedRemote exampleSubmit answeringAi
                  ''And a functor?'' None None None None None)) =
     (AwaitGetUser, \<lambda>s. s\<lparr>isSubmittingUserMessage := True\<rparr>) \<and>
   list_all flagDiscipline
     (stepsOf (handleSubmit conversation pagedRemote exampleSubmit answeringAi
                 ''And a functor?'' None None None None None)) \<and>
   list_all flagsAsDue
     (awaitStates (stepsOf (handleSubmit conversation pagedRemote exampleSubmit answeringAi
                              ''And a functor?'' None None None None None)) conversation) \<and>
   \<not> isSubmittingUserMessage
       (runAlone (handleSubmit conversation pagedRemote exampleSubmit answeringAi
                    ''And a functor?'' None None None None None) conversation) \<and>
   \<not> isAILoading
       (runAlone (handleSubmit conversation pagedRemote exampleSubmit answeringAi
                    ''And a functor?'' None None None None None) conversation) \<and>
   map fst (stepsOf (handleSubmit conversation pagedRemote exampleSubmit answeringAi
                       ''And a functor?'' None None None None None)) =
     [AwaitGetUser, AwaitInsertUserMessage, AwaitInvokeAI, AwaitSaveAiMessage,
      AwaitUpdateSession, AwaitUpdateSessionDocuments, Completed] \<and>
   submitRejected (conversation\<lparr>isSubmittingUserMessage := True\<rparr>) ''And a functor?''
     None None None \<and>
   stepsOf (handleSubmit (conversation\<lparr>isSubmittingUserMessage := True\<rparr>) pagedRemote
              exampleSubmit answeringAi ''And a functor?'' None None None None None) =
     [(Completed, \<lambda>s. s)]"
proof -
  have t: "trim ''And a functor?'' \<noteq> []"
    by (simp add: trim_def isSpace_def)
  have g: "\<not> submitRejected conversation ''And a functor?'' None None None"
    using t by (simp add: submitRejected_def conversation_def initialState_def)
  have s: "\<not> isAILoading conversation"
    by (simp add: conversation_def initialState_def)
  have r: "submitRejected (conversation\<lparr>isSubmittingUserMessage := True\<rparr>) ''And a functor?''
     None None None"
    by (simp add: submitRejected_def)
  have p: "map fst (stepsOf (handleSubmit conversation pagedRemote exampleSubmit answeringAi
                       ''And a functor?'' None None None None None)) =
     [AwaitGetUser, AwaitInsertUserMessage, AwaitInvokeAI, AwaitSaveAiMessage,
      AwaitUpdateSession, AwaitUpdateSessionDocuments, Completed]"
    by code_simp
  note A = submit_flags [of conversation "''And a functor?''" None None None pagedRemote
      exampleSubmit answeringAi None None conversation]
  note B = submit_flags [of "conversation\<lparr>isSubmittingUserMessage := True\<rparr>"
      "''And a functor?''" None None None pagedRemote exampleSubmit answeringAi None None
      conversation]
  from A g s B r p show ?thesis by blast
qed

subsection \<open>Audio job polling stops at a terminal status\<close>

lemma pollJobStatus_terminal:
  assumes "job \<noteq> []" and "profile \<noteq> None" and "terminal resp"
  shows "audioProcessingJobId (pollJobStatus (Some job) profile resp st) = None"
    and "pollInterval (pollJobStatus (Some job) profile resp st) = None"
  using assms
  by (auto simp: pollJobStatus_def terminal_def clearAudioJob_def truthy_def
      split: sum.splits option.splits)

lemma pollJobStatus_jobId:
  "audioProcessingJobId (pollJobStatus job profile resp st) = audioProcessingJobId st \<or>
   audioProcessingJobId (pollJobStatus job profile resp st) = None"
  by (auto simp: pollJobStatus_def clearAudioJob_def split: sum.splits option.splits)

lemma pollingEffect_interval:
  "audioProcessingJobId st \<noteq> Some j \<Longrightarrow> pollInterval (pollingEffect st) \<noteq> Some j"
  "audioProcessingJobId (pollingEffect st) = audioProcessingJobId st"
  "audioProcessingJobId st = None \<Longrightarrow> pollInterval (pollingEffect st) = None"
  by (auto simp: pollingEffect_def truthy_def)

lemma editorStep_jobId:
  assumes "audioProcessingJobId st \<noteq> Some j" and "\<not> startsJob j e"
  shows "audioProcessingJobId (editorStep st e) \<noteq> Some j"
proof (cases e)
  case (Poll resp)
  show ?thesis
  proof (cases "pollInterval st")
    case None
    with Poll assms show ?thesis by simp
  next
    case (Some job)
    with Poll assms pollJobStatus_jobId [of "Some job" "userProfile st" resp st]
    show ?thesis by (auto simp: pollingEffect_interval)
  qed
qed (use assms in \<open>auto simp: pollingEffect_interval handleGenerateNoteFromAudio_def
      handleGenerateSummaryFromAudio_def handleTranslateAudio_def
      handleClearAudioProcessing_def noteEffect_def Let_def split: option.splits\<close>)

lemma editorStep_interval:
  assumes "audioProcessingJobId st \<noteq> Some j" and "pollInterval st \<noteq> Some j"
    and "\<not> startsJob j e"
  shows "pollInterval (editorStep st e) \<noteq> Some j"
proof (cases e)
  case (Poll resp)
  show ?thesis
  proof (cases "pollInterval st")
    case None
    with Poll assms show ?thesis by simp
  next
    case (Some job)
    from pollJobStatus_jobId [of "Some job" "userProfile st" resp st] assms(1)
    have "audioProcessingJobId (pollJobStatus (Some job) (userProfile st) resp st) \<noteq> Some j"
      by auto
    with Poll Some show ?thesis by (simp add: pollingEffect_interval)
  qed
next
  case (GenerateNoteFromAudio d r)
  with editorStep_jobId [OF assms(1,3)] show ?thesis
    by (simp add: pollingEffect_interval)
next
  case (GenerateSummaryFromAudio r)
  with editorStep_jobId [OF assms(1,3)] show ?thesis
    by (simp add: pollingEffect_interval)
next
  case (TranslateAudio r)
  with editorStep_jobId [OF assms(1,3)] show ?thesis
    by (simp add: pollingEffect_interval)
next
  case ClearAudioProcessing
  with editorStep_jobId [OF assms(1,3)] show ?thesis
    by (simp add: pollingEffect_interval)
next
  case (NoteChanged c)
  with editorStep_jobId [OF assms(1,3)] show ?thesis
    by (simp add: pollingEffect_interval)
next
  case (ProfileChanged p)
  with assms(1) show ?thesis
    by (simp add: pollingEffect_interval)
qed

lemma editorRun_never_polls_again:
  assumes "\<forall>e\<in>set evs. \<not> startsJob j e"
  shows "audioProcessingJobId st \<noteq> Some j \<Longrightarrow> pollInterval st \<noteq> Some j \<Longrightarrow>
         audioProcessingJobId (editorRun st evs) \<noteq> Some j \<and>
         pollInterval (editorRun st evs) \<noteq> Some j"
  using assms
proof (induction evs arbitrary: st)
  case Nil
  then show ?case by (simp add: editorRun_def)
next
  case (Cons e evs)
  from Cons.prems have ne: "\<not> startsJob j e" and rest: "\<forall>e\<in>set evs. \<not> startsJob j e"
    by simp_all
  from editorStep_jobId [OF Cons.prems(1) ne] editorStep_interval [OF Cons.prems(1,2) ne]
  have "audioProcessingJobId (editorRun (editorStep st e) evs) \<noteq> Some j \<and>
        pollInterval (editorRun (editorStep st e) evs) \<noteq> Some j"
    using Cons.IH rest by blast
  then show ?case by (simp add: editorRun_def)
qed

text \<open>
  C5. For every audio-processing job \<open>j\<close> that is being polled: once a poll observes a
  terminal status (completed or error) or its status read fails, the polling interval
  is cleared and the job identifier is null, so a further tick does not occur (a poll
  event changes nothing); and whatever happens afterwards, short of the audio processor
  handing out the identifier \<open>j\<close> once more, no interval polls \<open>j\<close> again.
\<close>

theorem polling_stops_at_terminal:
  assumes "pollInterval st = Some j" and "j \<noteq> []" and "userProfile st \<noteq> None"
    and "terminal resp"
  shows "audioProcessingJobId (editorStep st (Poll resp)) = None \<and>
         pollInterval (editorStep st (Poll resp)) = None \<and>
         (\<forall>resp'. editorStep (editorStep st (Poll resp)) (Poll resp') = editorStep st (Poll resp)) \<and>
         (\<forall>evs. (\<forall>e\<in>set evs. \<not> startsJob j e) \<longrightarrow>
            audioProcessingJobId (editorRun (editorStep st (Poll resp)) evs) \<noteq> Some j \<and>
            pollInterval (editorRun (editorStep st (Poll resp)) evs) \<noteq> Some j)"
proof -
  let ?st' = "editorStep st (Poll resp)"
  from assms have 1: "audioProcessingJobId ?st' = None"
    by (simp add: pollJobStatus_terminal pollingEffect_interval)
  from assms have 2: "pollInterval ?st' = None"
    by (simp add: pollJobStatus_terminal pollingEffect_interval)
  from 2 have 3: "\<forall>resp'. editorStep ?st' (Poll resp') = ?st'" by simp
  from 1 2 have "audioProcessingJobId ?st' \<noteq> Some j" "pollInterval ?st' \<noteq> Some j" by simp_all
  then have 4: "\<forall>evs. (\<forall>e\<in>set evs. \<not> startsJob j e) \<longrightarrow>
            audioProcessingJobId (editorRun ?st' evs) \<noteq> Some j \<and>
            pollInterval (editorRun ?st' evs) \<noteq> Some j"
    using editorRun_never_polls_again by blast
  from 1 2 3 4 show ?thesis by blast
qed

theorem polling_stops_at_terminal_witness:
  "pollInterval pollingEditor = Some ''job-1'' \<and> ''job-1'' \<noteq> [] \<and>
   userProfile pollingEditor \<noteq> None \<and> terminal (Inr (Some completedResult)) \<and>
   \<not> startsJob ''job-1'' (Poll (Inl ''timeout'')) \<and>
   \<not> startsJob ''job-1'' (TranslateAudio (Inr (Some ''job-2''))) \<and>
   \<not> startsJob ''job-1'' (Poll (Inr None)) \<and>
   audioProcessingJobId (editorStep pollingEditor (Poll (Inr (Some completedResult)))) = None \<and>
   pollInterval (editorStep pollingEditor (Poll (Inr (Some completedResult)))) = None \<and>
   editorStep (editorStep pollingEditor (Poll (Inr (Some completedResult)))) (Poll (Inl ''timeout''))
     = editorStep pollingEditor (Poll (Inr (Some completedResult))) \<and>
   pollInterval (editorRun (editorStep pollingEditor (Poll (Inr (Some completedResult))))
      [Poll (Inl ''timeout''), TranslateAudio (Inr (Some ''job-2'')), Poll (Inr None)])
     \<noteq> Some ''job-1''"
proof -
  have i: "pollInterval pollingEditor = Some ''job-1''" by (simp add: pollingEditor_def)
  have n: "''job-1'' \<noteq> []" by simp
  have u: "userProfile pollingEditor \<noteq> None" by (simp add: pollingEditor_def)
  have t: "terminal (Inr (Some completedResult))"
    by (simp add: terminal_def completedResult_def)
  have e: "\<forall>e\<in>set [Poll (Inl ''timeout''), TranslateAudio (Inr (Some ''job-2'')), Poll (Inr None)].
      \<not> startsJob ''job-1'' e"
    by (simp add: startedJobId_def)
  note T = polling_stops_at_terminal [OF i n u t]
  from T have 1: "audioProcessingJobId (editorStep pollingEditor (Poll (Inr (Some completedResult)))) = None"
    and 2: "pollInterval (editorStep pollingEditor (Poll (Inr (Some completedResult)))) = None"
    by blast+
  from T have 3: "editorStep (editorStep pollingEditor (Poll (Inr (Some completedResult))))
      (Poll (Inl ''timeout'')) = editorStep pollingEditor (Poll (Inr (Some completedResult)))"
    by blast
  from T e have 4: "pollInterval (editorRun (editorStep pollingEditor (Poll (Inr (Some completedResult))))
      [Poll (Inl ''timeout''), TranslateAudio (Inr (Some ''job-2'')), Poll (Inr None)])
     \<noteq> Some ''job-1''"
    by blast
  from e have e': "\<not> startsJob ''job-1'' (Poll (Inl ''timeout''))"
    "\<not> startsJob ''job-1'' (TranslateAudio (Inr (Some ''job-2'')))"
    "\<not> startsJob ''job-1'' (Poll (Inr None))"
    by simp_all
  from i n u t e' 1 2 3 4 show ?thesis by blast
qed

end
